theory Spec2Isabelle
  imports Complex_Main "HOL-Library.Sublist"
begin

section \<open>Data model (src/lib/utils/rateLimitQueue.ts, types of video-analysis)\<close>

text \<open>
  Times are JavaScript millisecond timestamps (\<open>Date.now()\<close>, \<open>new Date()\<close>),
  modelled as integers. Every operation that reads the clock takes the current
  time \<open>now\<close> as an argument.
\<close>

record RateLimitInfo =
  remaining :: int
  resetTime :: int
  requestsInLastMinute :: int
  maxRequestsPerMinute :: int

text \<open>A browser \<open>File\<close>: its metadata and a handle to its content. The content
  is what serialisation drops (\<open>None\<close>).\<close>

record VideoFile =
  file_name :: string
  file_size :: nat
  file_type :: string
  file_content :: "string option"

record AnalysisOptions =
  includeVisualHook :: bool
  includeTextHook :: bool
  includeVoiceHook :: bool
  includeVideoScript :: bool
  includePainPoint :: bool

record VideoAnalysisRequest =
  req_id :: string
  filename :: string
  videoFile :: VideoFile
  analysisOptions :: AnalysisOptions
  createdAt :: int

record QueueItem =
  request :: VideoAnalysisRequest
  retryCount :: nat
  maxRetries :: nat
  lastAttempt :: "int option"

record Statistics =
  totalProcessed :: nat
  successCount :: nat
  errorCount :: nat
  startTime :: "int option"

record QueueState =
  items :: "QueueItem list"
  isProcessing :: bool
  isPaused :: bool
  rateLimitInfo :: RateLimitInfo
  statistics :: Statistics

record QueueStatus =
  position :: nat
  estimatedWaitTime :: nat
  qs_isProcessing :: bool
  qs_isPaused :: bool
  totalInQueue :: nat
  completedCount :: nat
  qs_errorCount :: nat

text \<open>The extracted fields of a successful analysis (\<open>apiResponse.data\<close>).\<close>

record AnalysisData =
  visualHook :: "string option"
  textHook :: "string option"
  voiceHook :: "string option"
  videoScript :: "string option"
  painPoint :: "string option"
  processingTime :: int

datatype result_status = Completed | Error

text \<open>\<open>VideoAnalysisResult\<close>; the five extracted fields and the processing time
  are grouped in \<open>res_data\<close> (absent on an error result).\<close>

record VideoAnalysisResult =
  res_id :: string
  res_filename :: string
  status :: result_status
  res_data :: "AnalysisData option"
  res_error :: "string option"
  res_createdAt :: int
  completedAt :: int

text \<open>The JSON body of the analysis endpoint, as route.ts builds it:
  \<open>{success, data?, error?: {message, code, details?: {retryAfter?}}, rateLimitInfo?}\<close>.\<close>

record ApiError =
  message :: "string option"
  code :: string
  retryAfter :: "int option"

record VideoAnalysisApiResponse =
  success :: bool
  data :: "AnalysisData option"
  api_error :: "ApiError option"
  api_rateLimitInfo :: "RateLimitInfo option"

text \<open>How the remote call of \<open>processVideoAnalysis\<close> settles: \<open>fetch\<close> or
  \<open>response.json()\<close> rejects with an error of the given message, or a JSON body
  arrives.\<close>

datatype remote_outcome = Rejected string | Responded VideoAnalysisApiResponse

text \<open>What \<open>localStorage\<close> holds under \<open>STORAGE_KEY\<close>: nothing, a string that
  \<open>JSON.parse\<close> rejects, or a parsed object whose \<open>rateLimitInfo\<close> and
  \<open>statistics\<close> may be missing or falsy (\<open>None\<close>).\<close>

record persisted =
  p_items :: "QueueItem list"
  p_isProcessing :: bool
  p_isPaused :: bool
  p_rateLimitInfo :: "RateLimitInfo option"
  p_statistics :: "Statistics option"

datatype stored = NoEntry | Unparsable | Json persisted

text \<open>The callbacks that \<open>setTimeout\<close> is given in this class: the next loop
  iteration (\<open>() => this.processNext()\<close>) and the re-insertion of a failed item
  at the head of the list (the closure in \<open>handleProcessingError\<close>).\<close>

datatype timer_action = ProcessNext | Requeue QueueItem

record timeout =
  handle :: nat
  fireAt :: int
  action :: timer_action

text \<open>
  The queue object together with the part of the JavaScript runtime it acts on:
  \<^item> \<open>state\<close>, \<open>processingTimer\<close>, \<open>rateLimitTimer\<close>: the private fields;
  \<^item> \<open>timeouts\<close>: the pending timeouts of the runtime (a timeout whose handle was
    overwritten in a field stays pending until it fires or is cleared);
  \<^item> \<open>inflight\<close>: the items whose remote call was issued and has not settled
    (the suspended continuations of \<open>processNext\<close>);
  \<^item> \<open>issued\<close>: the log of remote calls (\<open>fetch\<close>), with the time of issue;
  \<^item> \<open>resultCallback\<close>: whether a result callback is subscribed, and
    \<open>emitted\<close>: the results handed to it, in order;
  \<^item> \<open>localStorage\<close>: the entry under \<open>STORAGE_KEY\<close>.
  The progress and rate-limit callbacks only read the state
  (\<open>getQueueStatus\<close>, \<open>getRateLimitInfo\<close>) and are not part of the state.
\<close>

record VideoAnalysisQueue =
  state :: QueueState
  processingTimer :: "nat option"
  rateLimitTimer :: "nat option"
  timeouts :: "timeout list"
  nextHandle :: nat
  inflight :: "QueueItem list"
  issued :: "(int \<times> QueueItem) list"
  resultCallback :: bool
  emitted :: "VideoAnalysisResult list"
  localStorage :: stored

section \<open>The queue (class VideoAnalysisQueue)\<close>

definition MAX_RETRIES :: nat where
  "MAX_RETRIES = 3"

definition RETRY_BACKOFF_BASE :: int where
  "RETRY_BACKOFF_BASE = 2000"

definition PROCESSING_DELAY :: int where
  "PROCESSING_DELAY = 6000"

text \<open>\<open>DEFAULT_RATE_LIMIT_PER_MINUTE\<close> is imported from the types module; it is
  the parameter \<open>D\<close> of \<open>initializeState\<close>.\<close>

definition initializeState :: "int \<Rightarrow> int \<Rightarrow> QueueState" where
  "initializeState D now =
     \<lparr>items = [], isProcessing = False, isPaused = False,
      rateLimitInfo = \<lparr>remaining = D, resetTime = now + 60000,
                       requestsInLastMinute = 0, maxRequestsPerMinute = D\<rparr>,
      statistics = \<lparr>totalProcessed = 0, successCount = 0, errorCount = 0,
                    startTime = None\<rparr>\<rparr>"

definition setTimeout ::
  "timer_action \<Rightarrow> int \<Rightarrow> int \<Rightarrow> VideoAnalysisQueue \<Rightarrow> nat \<times> VideoAnalysisQueue" where
  "setTimeout act delay now q =
     (nextHandle q,
      q\<lparr>timeouts := timeouts q @ [\<lparr>handle = nextHandle q, fireAt = now + delay, action = act\<rparr>],
        nextHandle := Suc (nextHandle q)\<rparr>)"

definition clearTimeout :: "nat \<Rightarrow> VideoAnalysisQueue \<Rightarrow> VideoAnalysisQueue" where
  "clearTimeout h q = q\<lparr>timeouts := filter (\<lambda>t. handle t \<noteq> h) (timeouts q)\<rparr>"

definition clearTimers :: "VideoAnalysisQueue \<Rightarrow> VideoAnalysisQueue" where
  "clearTimers q =
     (let q1 = (case processingTimer q of
                  None \<Rightarrow> q
                | Some h \<Rightarrow> (clearTimeout h q)\<lparr>processingTimer := None\<rparr>)
      in (case rateLimitTimer q1 of
            None \<Rightarrow> q1
          | Some h \<Rightarrow> (clearTimeout h q1)\<lparr>rateLimitTimer := None\<rparr>))"

text \<open>\<open>saveToStorage\<close>: the state with every item's \<open>File\<close> reduced to its
  metadata. The write is wrapped in try/catch in the source; a write that fails
  (quota) is not modelled.\<close>

definition serializeItem :: "QueueItem \<Rightarrow> QueueItem" where
  "serializeItem item =
     item\<lparr>request := (request item)\<lparr>videoFile := (videoFile (request item))\<lparr>file_content := None\<rparr>\<rparr>\<rparr>"

definition saveToStorage :: "VideoAnalysisQueue \<Rightarrow> VideoAnalysisQueue" where
  "saveToStorage q =
     q\<lparr>localStorage := Json
        \<lparr>p_items = map serializeItem (items (state q)),
         p_isProcessing = isProcessing (state q),
         p_isPaused = isPaused (state q),
         p_rateLimitInfo = Some (rateLimitInfo (state q)),
         p_statistics = Some (statistics (state q))\<rparr>\<rparr>"

text \<open>\<open>loadFromStorage\<close>: a missing entry, a \<open>JSON.parse\<close> failure (caught) and
  missing fields leave the state as it is; the items are not restored. No field
  of the entry is compared with the clock. (A stored \<open>Date\<close> comes back from
  JSON as a string; both are the timestamp here.)\<close>

definition loadFromStorage :: "VideoAnalysisQueue \<Rightarrow> VideoAnalysisQueue" where
  "loadFromStorage q =
     (case localStorage q of
        NoEntry \<Rightarrow> q
      | Unparsable \<Rightarrow> q
      | Json p \<Rightarrow>
          (let q1 = (case p_rateLimitInfo p of
                       None \<Rightarrow> q
                     | Some info \<Rightarrow> q\<lparr>state := (state q)\<lparr>rateLimitInfo := info\<rparr>\<rparr>)
           in (case p_statistics p of
                 None \<Rightarrow> q1
               | Some st \<Rightarrow> q1\<lparr>state := (state q1)\<lparr>statistics := st\<rparr>\<rparr>)))"

text \<open>The constructor: \<open>initializeState\<close>, then \<open>loadFromStorage\<close>, in a
  runtime with no pending timeout and the given storage entry.\<close>

definition new_queue :: "int \<Rightarrow> int \<Rightarrow> stored \<Rightarrow> VideoAnalysisQueue" where
  "new_queue D now st =
     loadFromStorage
       \<lparr>state = initializeState D now, processingTimer = None, rateLimitTimer = None,
        timeouts = [], nextHandle = 1, inflight = [], issued = [],
        resultCallback = False, emitted = [],
        localStorage = st\<rparr>"

definition getQueueStatus :: "VideoAnalysisQueue \<Rightarrow> QueueStatus" where
  "getQueueStatus q =
     (let totalInQueue = length (items (state q)) in
      \<lparr>position = (if isProcessing (state q) then max 1 totalInQueue else 0),
       estimatedWaitTime = totalInQueue * nat (PROCESSING_DELAY div 1000),
       qs_isProcessing = isProcessing (state q),
       qs_isPaused = isPaused (state q),
       totalInQueue = totalInQueue,
       completedCount = successCount (statistics (state q)),
       qs_errorCount = errorCount (statistics (state q))\<rparr>)"

definition onResult :: "VideoAnalysisQueue \<Rightarrow> VideoAnalysisQueue" where
  "onResult q = q\<lparr>resultCallback := True\<rparr>"

definition notifyResult :: "VideoAnalysisResult \<Rightarrow> VideoAnalysisQueue \<Rightarrow> VideoAnalysisQueue" where
  "notifyResult r q = (if resultCallback q then q\<lparr>emitted := emitted q @ [r]\<rparr> else q)"

definition destroy :: "VideoAnalysisQueue \<Rightarrow> VideoAnalysisQueue" where
  "destroy q = (clearTimers q)\<lparr>resultCallback := False\<rparr>"

definition newItem :: "VideoAnalysisRequest \<Rightarrow> QueueItem" where
  "newItem r = \<lparr>request = r, retryCount = 0, maxRetries = MAX_RETRIES, lastAttempt = None\<rparr>"

definition addToQueue :: "VideoAnalysisRequest \<Rightarrow> VideoAnalysisQueue \<Rightarrow> VideoAnalysisQueue" where
  "addToQueue r q =
     saveToStorage (q\<lparr>state := (state q)\<lparr>items := items (state q) @ [newItem r]\<rparr>\<rparr>)"

definition addMultipleToQueue ::
  "VideoAnalysisRequest list \<Rightarrow> VideoAnalysisQueue \<Rightarrow> VideoAnalysisQueue" where
  "addMultipleToQueue rs q =
     saveToStorage (q\<lparr>state := (state q)\<lparr>items := items (state q) @ map newItem rs\<rparr>\<rparr>)"

definition stopProcessing :: "VideoAnalysisQueue \<Rightarrow> VideoAnalysisQueue" where
  "stopProcessing q =
     saveToStorage
       (clearTimers (q\<lparr>state := (state q)\<lparr>isProcessing := False, isPaused := False\<rparr>\<rparr>))"

text \<open>The local window reset of \<open>processNext\<close>.\<close>

definition resetRateLimit :: "int \<Rightarrow> RateLimitInfo \<Rightarrow> RateLimitInfo" where
  "resetRateLimit now info =
     info\<lparr>remaining := maxRequestsPerMinute info, resetTime := now + 60000,
          requestsInLastMinute := 0\<rparr>"

text \<open>
  \<open>processNext\<close> up to its \<open>await\<close>: the guards, the rate-limit gate and the
  dispatch. The head item leaves the list, gets \<open>lastAttempt\<close>, and its remote
  call is issued; the rest of the function runs when the call settles
  (\<open>processNext_resume\<close>).
\<close>

definition processNext :: "int \<Rightarrow> VideoAnalysisQueue \<Rightarrow> VideoAnalysisQueue" where
  "processNext now q =
     (let s = state q; rl = rateLimitInfo s in
      if \<not> isProcessing s \<or> isPaused s \<or> items s = [] then
        (if items s = [] \<and> isProcessing s then stopProcessing q else q)
      else if remaining rl \<le> 0 \<and> resetTime rl - now > 0 then
        (let (h, q1) = setTimeout ProcessNext (resetTime rl - now) now q
         in q1\<lparr>rateLimitTimer := Some h\<rparr>)
      else
        (let q1 = (if remaining rl \<le> 0
                   then q\<lparr>state := s\<lparr>rateLimitInfo := resetRateLimit now rl\<rparr>\<rparr>
                   else q)
         in (case items (state q1) of
               [] \<Rightarrow> q1
             | item # rest \<Rightarrow>
                 (let item1 = item\<lparr>lastAttempt := Some now\<rparr>
                  in q1\<lparr>state := (state q1)\<lparr>items := rest\<rparr>,
                        inflight := inflight q1 @ [item1],
                        issued := issued q1 @ [(now, item1)]\<rparr>))))"

definition startProcessing :: "int \<Rightarrow> VideoAnalysisQueue \<Rightarrow> VideoAnalysisQueue" where
  "startProcessing now q =
     (if isProcessing (state q) then q
      else processNext now
             (saveToStorage
                (q\<lparr>state := (state q)
                      \<lparr>isProcessing := True, isPaused := False,
                       statistics := (statistics (state q))\<lparr>startTime := Some now\<rparr>\<rparr>\<rparr>)))"

definition pauseProcessing :: "VideoAnalysisQueue \<Rightarrow> VideoAnalysisQueue" where
  "pauseProcessing q =
     saveToStorage (clearTimers (q\<lparr>state := (state q)\<lparr>isPaused := True\<rparr>\<rparr>))"

definition resumeProcessing :: "int \<Rightarrow> VideoAnalysisQueue \<Rightarrow> VideoAnalysisQueue" where
  "resumeProcessing now q =
     (if \<not> isProcessing (state q) then q
      else processNext now (saveToStorage (q\<lparr>state := (state q)\<lparr>isPaused := False\<rparr>\<rparr>)))"

definition resetStatistics :: "VideoAnalysisQueue \<Rightarrow> VideoAnalysisQueue" where
  "resetStatistics q =
     q\<lparr>state := (state q)
          \<lparr>statistics := \<lparr>totalProcessed = 0, successCount = 0, errorCount = 0,
                          startTime = None\<rparr>\<rparr>\<rparr>"

definition clearQueue :: "VideoAnalysisQueue \<Rightarrow> VideoAnalysisQueue" where
  "clearQueue q =
     (let q1 = stopProcessing q
      in saveToStorage (resetStatistics (q1\<lparr>state := (state q1)\<lparr>items := []\<rparr>\<rparr>)))"

definition removeFromQueue :: "string \<Rightarrow> VideoAnalysisQueue \<Rightarrow> VideoAnalysisQueue" where
  "removeFromQueue requestId q =
     saveToStorage
       (q\<lparr>state := (state q)
             \<lparr>items := filter (\<lambda>item. req_id (request item) \<noteq> requestId) (items (state q))\<rparr>\<rparr>)"

text \<open>\<open>retryFailedItem\<close> looks the id up in the pending list (\<open>items.find\<close>) and
  resets the first item found, in place.\<close>

fun resetFirst :: "string \<Rightarrow> QueueItem list \<Rightarrow> QueueItem list" where
  "resetFirst requestId [] = []"
| "resetFirst requestId (item # rest) =
     (if req_id (request item) = requestId
      then item\<lparr>retryCount := 0, lastAttempt := None\<rparr> # rest
      else item # resetFirst requestId rest)"

definition retryFailedItem :: "int \<Rightarrow> string \<Rightarrow> VideoAnalysisQueue \<Rightarrow> VideoAnalysisQueue" where
  "retryFailedItem now requestId q =
     (case find (\<lambda>item. req_id (request item) = requestId) (items (state q)) of
        None \<Rightarrow> q
      | Some item \<Rightarrow>
          (let q1 = q\<lparr>state := (state q)\<lparr>items := resetFirst requestId (items (state q))\<rparr>\<rparr>
           in if \<not> isProcessing (state q1) then startProcessing now q1 else q1))"

text \<open>\<open>String.prototype.toLowerCase\<close> on ASCII text: the letters A to Z are
  mapped to a to z, every other character is kept.\<close>

definition toLowerChar :: "char \<Rightarrow> char" where
  "toLowerChar c =
     (let n = (of_char c :: nat) in if 65 \<le> n \<and> n \<le> 90 then char_of (n + 32) else c)"

definition toLowerCase :: "string \<Rightarrow> string" where
  "toLowerCase s = map toLowerChar s"

definition retryableErrors :: "string list" where
  "retryableErrors =
     [''network'', ''timeout'', ''rate limit'', ''temporary'', ''service unavailable'',
      ''internal server error'']"

text \<open>\<open>lowerMessage.includes(error)\<close> is \<^const>\<open>sublist\<close>: the keyword occurs as a
  contiguous part of the message.\<close>

definition isRetryableError :: "string \<Rightarrow> bool" where
  "isRetryableError errorMessage =
     list_ex (\<lambda>e. sublist e (toLowerCase errorMessage)) retryableErrors"

text \<open>The message of the error that \<open>processVideoAnalysis\<close> throws on a
  failure body: \<open>apiResponse.error?.message || 'Analysis failed'\<close>.\<close>

definition thrownMessage :: "VideoAnalysisApiResponse \<Rightarrow> string" where
  "thrownMessage apiResponse =
     (case api_error apiResponse of
        None \<Rightarrow> ''Analysis failed''
      | Some e \<Rightarrow>
          (case message e of
             None \<Rightarrow> ''Analysis failed''
           | Some m \<Rightarrow> if m = [] then ''Analysis failed'' else m))"

text \<open>
  \<open>processVideoAnalysis\<close> from the point where the remote call has settled. The
  result is \<open>Inl message\<close> when the function throws an \<open>Error\<close> with that message
  and \<open>Inr result\<close> when it returns. A snapshot in the body replaces the
  rate-limit record before the outcome is looked at.
\<close>

definition processVideoAnalysis ::
  "int \<Rightarrow> VideoAnalysisRequest \<Rightarrow> remote_outcome \<Rightarrow> VideoAnalysisQueue
     \<Rightarrow> (string + VideoAnalysisResult) \<times> VideoAnalysisQueue" where
  "processVideoAnalysis now req outcome q =
     (case outcome of
        Rejected msg \<Rightarrow> (Inl msg, q)
      | Responded apiResponse \<Rightarrow>
          (let q1 = (case api_rateLimitInfo apiResponse of
                       None \<Rightarrow> q
                     | Some info \<Rightarrow> q\<lparr>state := (state q)\<lparr>rateLimitInfo := info\<rparr>\<rparr>)
           in if \<not> success apiResponse \<or> data apiResponse = None then
                (Inl (thrownMessage apiResponse), q1)
              else
                (Inr \<lparr>res_id = req_id req, res_filename = filename req,
                      status = Completed, res_data = data apiResponse, res_error = None,
                      res_createdAt = createdAt req, completedAt = now\<rparr>, q1)))"

text \<open>The message with which \<open>processVideoAnalysis\<close> throws on an outcome, if it
  throws.\<close>

definition failure :: "remote_outcome \<Rightarrow> string option" where
  "failure outcome =
     (case outcome of
        Rejected msg \<Rightarrow> Some msg
      | Responded apiResponse \<Rightarrow>
          if \<not> success apiResponse \<or> data apiResponse = None
          then Some (thrownMessage apiResponse) else None)"

definition handleProcessingError ::
  "int \<Rightarrow> QueueItem \<Rightarrow> string \<Rightarrow> VideoAnalysisQueue \<Rightarrow> VideoAnalysisQueue" where
  "handleProcessingError now item0 errorMessage q =
     (let item = item0\<lparr>retryCount := retryCount item0 + 1\<rparr>;
          isRetryable = isRetryableError errorMessage
      in if isRetryable \<and> retryCount item < maxRetries item then
           (let backoffDelay = RETRY_BACKOFF_BASE * 2 ^ (retryCount item - 1)
            in saveToStorage (snd (setTimeout (Requeue item) backoffDelay now q)))
         else
           saveToStorage
             (notifyResult
                \<lparr>res_id = req_id (request item), res_filename = filename (request item),
                 status = Error, res_data = None, res_error = Some errorMessage,
                 res_createdAt = createdAt (request item), completedAt = now\<rparr>
                (q\<lparr>state := (state q)
                      \<lparr>statistics := (statistics (state q))
                         \<lparr>errorCount := errorCount (statistics (state q)) + 1,
                          totalProcessed := totalProcessed (statistics (state q)) + 1\<rparr>\<rparr>\<rparr>)))"

text \<open>The local decrement of the success path.\<close>

definition decrementRateLimit :: "RateLimitInfo \<Rightarrow> RateLimitInfo" where
  "decrementRateLimit info =
     info\<lparr>remaining := max 0 (remaining info - 1),
          requestsInLastMinute := requestsInLastMinute info + 1\<rparr>"

text \<open>
  \<open>processNext\<close> from its \<open>await\<close> on: the remote call of \<open>item\<close> has settled
  with \<open>outcome\<close>. The try block applies the success, the catch block hands the
  thrown message to \<open>handleProcessingError\<close>, and in both cases the next iteration
  is armed after \<open>PROCESSING_DELAY\<close>. No flag of the state is read on this path.
\<close>

definition processNext_resume ::
  "int \<Rightarrow> QueueItem \<Rightarrow> remote_outcome \<Rightarrow> VideoAnalysisQueue \<Rightarrow> VideoAnalysisQueue" where
  "processNext_resume now item outcome q0 =
     (let q = q0\<lparr>inflight := remove1 item (inflight q0)\<rparr>;
          q2 = (case processVideoAnalysis now (request item) outcome q of
                  (Inr result, q1) \<Rightarrow>
                    notifyResult result
                      (saveToStorage
                         (q1\<lparr>state := (state q1)
                               \<lparr>statistics := (statistics (state q1))
                                  \<lparr>successCount := successCount (statistics (state q1)) + 1,
                                   totalProcessed := totalProcessed (statistics (state q1)) + 1\<rparr>,
                                rateLimitInfo := decrementRateLimit (rateLimitInfo (state q1))\<rparr>\<rparr>))
                | (Inl errorMessage, q1) \<Rightarrow> handleProcessingError now item errorMessage q1);
          (h, q3) = setTimeout ProcessNext PROCESSING_DELAY now q2
      in q3\<lparr>processingTimer := Some h\<rparr>)"

text \<open>A pending timeout fires: it leaves the runtime's list and its callback runs.\<close>

definition fire :: "int \<Rightarrow> nat \<Rightarrow> VideoAnalysisQueue \<Rightarrow> VideoAnalysisQueue" where
  "fire now h q =
     (case find (\<lambda>t. handle t = h) (timeouts q) of
        None \<Rightarrow> q
      | Some t \<Rightarrow>
          (let q1 = clearTimeout h q
           in (case action t of
                 ProcessNext \<Rightarrow> processNext now q1
               | Requeue item \<Rightarrow>
                   saveToStorage (q1\<lparr>state := (state q1)\<lparr>items := item # items (state q1)\<rparr>\<rparr>))))"

section \<open>The runtime: user calls, timeouts and settling calls as events\<close>

datatype event =
    OnResult
  | AddToQueue VideoAnalysisRequest
  | AddMultipleToQueue "VideoAnalysisRequest list"
  | StartProcessing
  | PauseProcessing
  | ResumeProcessing
  | StopProcessing
  | ClearQueue
  | RemoveFromQueue string
  | RetryFailedItem string
  | Destroy
  | Fire nat
  | Settle QueueItem remote_outcome

text \<open>One turn of the JavaScript event loop at time \<open>now\<close>: a public method is
  called, a pending timeout that is due fires, or a call in flight settles.\<close>

definition apply_event :: "int \<Rightarrow> event \<Rightarrow> VideoAnalysisQueue \<Rightarrow> VideoAnalysisQueue" where
  "apply_event now ev q =
     (case ev of
        OnResult \<Rightarrow> onResult q
      | AddToQueue r \<Rightarrow> addToQueue r q
      | AddMultipleToQueue rs \<Rightarrow> addMultipleToQueue rs q
      | StartProcessing \<Rightarrow> startProcessing now q
      | PauseProcessing \<Rightarrow> pauseProcessing q
      | ResumeProcessing \<Rightarrow> resumeProcessing now q
      | StopProcessing \<Rightarrow> stopProcessing q
      | ClearQueue \<Rightarrow> clearQueue q
      | RemoveFromQueue requestId \<Rightarrow> removeFromQueue requestId q
      | RetryFailedItem requestId \<Rightarrow> retryFailedItem now requestId q
      | Destroy \<Rightarrow> destroy q
      | Fire h \<Rightarrow>
          (case find (\<lambda>t. handle t = h) (timeouts q) of
             None \<Rightarrow> q
           | Some t \<Rightarrow> if fireAt t \<le> now then fire now h q else q)
      | Settle item outcome \<Rightarrow>
          if item \<in> set (inflight q) then processNext_resume now item outcome q else q)"

fun apply_events :: "(int \<times> event) list \<Rightarrow> VideoAnalysisQueue \<Rightarrow> VideoAnalysisQueue" where
  "apply_events [] q = q"
| "apply_events ((now, ev) # evs) q = apply_events evs (apply_event now ev q)"

text \<open>The pending timeout that fires next: the least \<open>fireAt\<close>, and among equal
  ones the one that was set first.\<close>

fun earliest :: "timeout list \<Rightarrow> timeout option" where
  "earliest [] = None"
| "earliest (t # ts) =
     (case earliest ts of
        None \<Rightarrow> Some t
      | Some u \<Rightarrow> if fireAt u < fireAt t then Some u else Some t)"

text \<open>
  The queue left to itself, with a remote side that answers every call
  \<open>latency\<close> milliseconds after it was issued with the outcome \<open>remote item\<close>:
  the next event is the settling of the oldest call in flight or the firing of
  the earliest timeout, whichever comes first, and the clock moves to it. The
  run stops when nothing is pending, or when the fuel is used up.
\<close>

definition settleTime :: "int \<Rightarrow> QueueItem \<Rightarrow> int" where
  "settleTime latency item = (case lastAttempt item of None \<Rightarrow> latency | Some t \<Rightarrow> t + latency)"

fun run ::
  "nat \<Rightarrow> (QueueItem \<Rightarrow> remote_outcome) \<Rightarrow> int \<Rightarrow> int \<times> VideoAnalysisQueue
     \<Rightarrow> int \<times> VideoAnalysisQueue" where
  "run 0 remote latency (now, q) = (now, q)"
| "run (Suc n) remote latency (now, q) =
     (case (inflight q, earliest (timeouts q)) of
        ([], None) \<Rightarrow> (now, q)
      | (item # _, None) \<Rightarrow>
          (let now1 = max now (settleTime latency item)
           in run n remote latency (now1, processNext_resume now1 item (remote item) q))
      | ([], Some t) \<Rightarrow>
          (let now1 = max now (fireAt t)
           in run n remote latency (now1, fire now1 (handle t) q))
      | (item # _, Some t) \<Rightarrow>
          if settleTime latency item \<le> fireAt t then
            (let now1 = max now (settleTime latency item)
             in run n remote latency (now1, processNext_resume now1 item (remote item) q))
          else
            (let now1 = max now (fireAt t)
             in run n remote latency (now1, fire now1 (handle t) q)))"

section \<open>The server-side limiter (checkRateLimit of route.ts)\<close>

record RequestEntry =
  timestamp :: int
  entry_id :: string

record RateLimitData =
  count :: int
  data_resetTime :: int
  requests :: "RequestEntry list"
  lastCleanup :: int

record RateLimitCheck =
  allowed :: bool
  chk_remaining :: int
  chk_resetTime :: int
  chk_requestsInLastMinute :: int
  chk_retryAfter :: "int option"

definition RATE_LIMIT_WINDOW_MS :: int where
  "RATE_LIMIT_WINDOW_MS = 60000"

text \<open>\<open>Math.ceil(a / b)\<close> on integers \<open>a\<close> and \<open>b\<close>.\<close>

definition ceilDiv :: "int \<Rightarrow> int \<Rightarrow> int" where
  "ceilDiv a b = - ((- a) div b)"

text \<open>
  \<open>checkRateLimit(ip, requestId)\<close>. The ceiling \<open>RATE_LIMIT_PER_MINUTE\<close> is read
  from the environment with \<open>parseInt\<close> and is the integer parameter \<open>limit\<close>; \<open>generated\<close> is the id the
  function makes up when none (or an empty one) is passed. The store is the
  module-level \<open>Map\<close>; the function returns its answer and the updated store.
\<close>

definition checkRateLimit ::
  "int \<Rightarrow> int \<Rightarrow> string \<Rightarrow> string \<Rightarrow> string option \<Rightarrow> (string \<rightharpoonup> RateLimitData)
     \<Rightarrow> RateLimitCheck \<times> (string \<rightharpoonup> RateLimitData)" where
  "checkRateLimit limit now generated ip requestId rateLimitStore =
     (let limitData0 = (case rateLimitStore ip of
                          None \<Rightarrow> \<lparr>count = 0, data_resetTime = now + RATE_LIMIT_WINDOW_MS,
                                    requests = [], lastCleanup = now\<rparr>
                        | Some d \<Rightarrow> d);
          oneMinuteAgo = now - RATE_LIMIT_WINDOW_MS;
          kept = filter (\<lambda>req. timestamp req > oneMinuteAgo) (requests limitData0);
          limitData1 = limitData0\<lparr>requests := kept, count := int (length kept)\<rparr>;
          limitData = (if now > data_resetTime limitData1
                       then limitData1\<lparr>data_resetTime := now + RATE_LIMIT_WINDOW_MS\<rparr>
                       else limitData1)
      in if count limitData \<ge> limit then
           (\<lparr>allowed = False, chk_remaining = 0, chk_resetTime = data_resetTime limitData,
             chk_requestsInLastMinute = count limitData,
             chk_retryAfter =
               Some (case requests limitData of
                       [] \<Rightarrow> 60
                     | oldestRequest # _ \<Rightarrow>
                         ceilDiv (timestamp oldestRequest + RATE_LIMIT_WINDOW_MS - now) 1000)\<rparr>,
            rateLimitStore(ip \<mapsto> limitData))
         else
           (let currentRequestId = (case requestId of
                                      None \<Rightarrow> generated
                                    | Some i \<Rightarrow> if i = [] then generated else i);
                pushed = requests limitData @ [\<lparr>timestamp = now, entry_id = currentRequestId\<rparr>];
                limitData2 = limitData\<lparr>requests := pushed, count := int (length pushed)\<rparr>
            in (\<lparr>allowed = True, chk_remaining = limit - count limitData2,
                 chk_resetTime = data_resetTime limitData2,
                 chk_requestsInLastMinute = count limitData2, chk_retryAfter = None\<rparr>,
                rateLimitStore(ip \<mapsto> limitData2))))"

text \<open>The timestamps on record for a caller, oldest first.\<close>

definition recorded :: "(string \<rightharpoonup> RateLimitData) \<Rightarrow> string \<Rightarrow> int list" where
  "recorded rateLimitStore ip =
     (case rateLimitStore ip of None \<Rightarrow> [] | Some d \<Rightarrow> map timestamp (requests d))"

text \<open>A sequence of checks of one caller at the given times; the answers in order.\<close>

fun checks ::
  "int \<Rightarrow> string \<Rightarrow> int list \<Rightarrow> (string \<rightharpoonup> RateLimitData) \<Rightarrow> RateLimitCheck list" where
  "checks limit ip [] rateLimitStore = []"
| "checks limit ip (now # ts) rateLimitStore =
     (let (r, store1) = checkRateLimit limit now ''req'' ip None rateLimitStore
      in r # checks limit ip ts store1)"

section \<open>Example inputs\<close>

definition all_options :: AnalysisOptions where
  "all_options =
     \<lparr>includeVisualHook = True, includeTextHook = True, includeVoiceHook = True,
      includeVideoScript = True, includePainPoint = True\<rparr>"

definition req_a :: VideoAnalysisRequest where
  "req_a =
     \<lparr>req_id = ''a'', filename = ''a.mp4'',
      videoFile = \<lparr>file_name = ''a.mp4'', file_size = 1000, file_type = ''video/mp4'',
                   file_content = Some ''bytes of a''\<rparr>,
      analysisOptions = all_options, createdAt = 0\<rparr>"

text \<open>The item of \<open>req_a\<close> as \<open>processNext\<close> dispatches it at time 0.\<close>

definition item_a :: QueueItem where
  "item_a = \<lparr>request = req_a, retryCount = 0, maxRetries = 3, lastAttempt = Some 0\<rparr>"

text \<open>A fresh queue with a subscribed result callback and a ceiling of 10, to
  which \<open>req_a\<close> is added and which is started at time 0: \<open>item_a\<close> is in flight.\<close>

definition started_a :: VideoAnalysisQueue where
  "started_a = startProcessing 0 (addToQueue req_a (onResult (new_queue 10 0 NoEntry)))"

definition data_a :: AnalysisData where
  "data_a =
     \<lparr>visualHook = Some ''hook'', textHook = None, voiceHook = None, videoScript = None,
      painPoint = None, processingTime = 1500\<rparr>"

text \<open>Outcomes of the remote call: a success body without a snapshot, and a
  rejection whose message holds none of the retryable keywords.\<close>

definition ok_response :: remote_outcome where
  "ok_response = Responded \<lparr>success = True, data = Some data_a, api_error = None, api_rateLimitInfo = None\<rparr>"

definition bad_format :: remote_outcome where
  "bad_format = Rejected ''Unsupported video format''"

text \<open>The started queue is stopped while the call of \<open>item_a\<close> is in flight; the
  call then settles at time 100, with a success or with a terminal failure.\<close>

definition stopped_a :: VideoAnalysisQueue where
  "stopped_a = stopProcessing started_a"

definition late_a :: VideoAnalysisQueue where
  "late_a = processNext_resume 100 item_a ok_response stopped_a"

definition late_failed_a :: VideoAnalysisQueue where
  "late_failed_a = processNext_resume 100 item_a bad_format stopped_a"

definition late_retrying_a :: VideoAnalysisQueue where
  "late_retrying_a = processNext_resume 100 item_a (Rejected ''Network request failed'') stopped_a"


text \<open>A stored entry whose snapshot resets at 60000, loaded at 100000 (after the
  reset time) and at 30000 (before it).\<close>

definition expired_snapshot :: RateLimitInfo where
  "expired_snapshot =
     \<lparr>remaining = 0, resetTime = 60000, requestsInLastMinute = 10, maxRequestsPerMinute = 10\<rparr>"

definition saved_statistics :: Statistics where
  "saved_statistics = \<lparr>totalProcessed = 7, successCount = 5, errorCount = 2, startTime = Some 0\<rparr>"

definition expired_entry :: stored where
  "expired_entry =
     Json \<lparr>p_items = [serializeItem (newItem req_a)], p_isProcessing = True, p_isPaused = False,
           p_rateLimitInfo = Some expired_snapshot, p_statistics = Some saved_statistics\<rparr>"

definition reloaded_late :: VideoAnalysisQueue where
  "reloaded_late = new_queue 10 100000 expired_entry"

definition reloaded_early :: VideoAnalysisQueue where
  "reloaded_early = new_queue 10 30000 expired_entry"

text \<open>The 429 body of route.ts for a caller whose oldest request in the window
  ages out in 10 seconds: \<open>retryAfter\<close> is 10, the snapshot has no capacity left
  and resets at 60100. It settles the call of \<open>item_a\<close> at time 100.\<close>

definition rate_limited :: remote_outcome where
  "rate_limited =
     Responded
       \<lparr>success = False, data = None,
        api_error = Some \<lparr>message = Some ''Rate limit exceeded. Please wait 10 seconds before making another request.'',
                          code = ''RATE_LIMIT_EXCEEDED'', retryAfter = Some 10\<rparr>,
        api_rateLimitInfo = Some \<lparr>remaining = 0, resetTime = 60100, requestsInLastMinute = 10,
                                  maxRequestsPerMinute = 10\<rparr>\<rparr>"

definition limited_a :: VideoAnalysisQueue where
  "limited_a = processNext_resume 100 item_a rate_limited started_a"

text \<open>The call of \<open>item_a\<close> settles at time 100 with a terminal failure, and with
  a retryable one.\<close>

definition failed_a :: VideoAnalysisQueue where
  "failed_a = processNext_resume 100 item_a bad_format started_a"

definition network_down :: remote_outcome where
  "network_down = Rejected ''Network request failed''"

definition retrying_a :: VideoAnalysisQueue where
  "retrying_a = processNext_resume 100 item_a network_down started_a"

text \<open>The pacing delay in the words of the specification: \<open>60 / ceiling\<close>
  seconds, at least one second; in milliseconds.\<close>

definition spec_pacing_delay_ms :: "int \<Rightarrow> real" where
  "spec_pacing_delay_ms ceiling_per_minute = max (60 / of_int ceiling_per_minute) 1 * 1000"

text \<open>A success body from a server whose ceiling is 20 per minute.\<close>

definition ok_response_20 :: remote_outcome where
  "ok_response_20 =
     Responded \<lparr>success = True, data = Some data_a, api_error = None,
                api_rateLimitInfo = Some \<lparr>remaining = 19, resetTime = 60000, requestsInLastMinute = 1,
                                  maxRequestsPerMinute = 20\<rparr>\<rparr>"

definition paced_20 :: VideoAnalysisQueue where
  "paced_20 = processNext_resume 100 item_a ok_response_20 started_a"

text \<open>
  The sliding window in the words of the specification: a check at time \<open>now\<close>
  is denied when the number of granted checks within the trailing 60 seconds
  has reached the ceiling. \<open>granted\<close> is the full record of granted checks,
  never pruned; the answers are \<open>True\<close> for allowed.
\<close>

fun spec_sliding_window :: "int \<Rightarrow> int list \<Rightarrow> int list \<Rightarrow> bool list" where
  "spec_sliding_window limit granted [] = []"
| "spec_sliding_window limit granted (now # ts) =
     (if limit \<le> int (length (filter (\<lambda>t. now - 60000 < t) granted))
      then False # spec_sliding_window limit granted ts
      else True # spec_sliding_window limit (granted @ [now]) ts)"

text \<open>A store in which the caller 10.0.0.1 has two requests on record, at 0 and
  at 1000.\<close>

definition full_store :: "string \<rightharpoonup> RateLimitData" where
  "full_store =
     Map.empty(''10.0.0.1'' \<mapsto>
       \<lparr>count = 2, data_resetTime = 60000,
        requests = [\<lparr>timestamp = 0, entry_id = ''r1''\<rparr>, \<lparr>timestamp = 1000, entry_id = ''r2''\<rparr>],
        lastCleanup = 0\<rparr>)"

section \<open>The rate-limit equation\<close>

text \<open>The equation of the rate-limit record, with a ceiling that is not negative.\<close>

definition consistent :: "RateLimitInfo \<Rightarrow> bool" where
  "consistent info \<longleftrightarrow>
     0 \<le> maxRequestsPerMinute info
     \<and> remaining info = max 0 (maxRequestsPerMinute info - requestsInLastMinute info)"

text \<open>The snapshot that an outcome of the remote call, an event, or the storage
  entry carries, if any; and that all of them satisfy the equation.\<close>

definition snapshot_of :: "remote_outcome \<Rightarrow> RateLimitInfo option" where
  "snapshot_of outcome =
     (case outcome of Rejected _ \<Rightarrow> None | Responded apiResponse \<Rightarrow> api_rateLimitInfo apiResponse)"

definition event_snapshot :: "event \<Rightarrow> RateLimitInfo option" where
  "event_snapshot ev = (case ev of Settle _ outcome \<Rightarrow> snapshot_of outcome | _ \<Rightarrow> None)"

definition stored_snapshot :: "stored \<Rightarrow> RateLimitInfo option" where
  "stored_snapshot st = (case st of Json p \<Rightarrow> p_rateLimitInfo p | _ \<Rightarrow> None)"

definition snapshots_consistent :: "(int \<times> event) list \<Rightarrow> bool" where
  "snapshots_consistent evs =
     list_all (\<lambda>(now, ev). case event_snapshot ev of None \<Rightarrow> True | Some info \<Rightarrow> consistent info) evs"

definition stored_consistent :: "stored \<Rightarrow> bool" where
  "stored_consistent st = (case stored_snapshot st of None \<Rightarrow> True | Some info \<Rightarrow> consistent info)"

text \<open>The snapshot that \<open>POST\<close> of route.ts builds from the answer of
  \<open>checkRateLimit\<close> and sends with its bodies.\<close>

definition rateLimitInfo_of_check :: "int \<Rightarrow> RateLimitCheck \<Rightarrow> RateLimitInfo" where
  "rateLimitInfo_of_check limit rateLimitCheck =
     \<lparr>remaining = chk_remaining rateLimitCheck, resetTime = chk_resetTime rateLimitCheck,
      requestsInLastMinute = chk_requestsInLastMinute rateLimitCheck,
      maxRequestsPerMinute = limit\<rparr>"

text \<open>A retryable failure body that carries a given snapshot; a snapshot that
  does not satisfy the equation (5 remaining of 10 with 1 request counted) and
  one that does.\<close>

definition failure_with :: "RateLimitInfo \<Rightarrow> remote_outcome" where
  "failure_with info =
     Responded \<lparr>success = False, data = None,
                api_error = Some \<lparr>message = Some ''Network timeout'', code = ''ANALYSIS_FAILED'',
                                  retryAfter = None\<rparr>,
                api_rateLimitInfo = Some info\<rparr>"

definition skewed_snapshot :: RateLimitInfo where
  "skewed_snapshot =
     \<lparr>remaining = 5, resetTime = 60000, requestsInLastMinute = 1, maxRequestsPerMinute = 10\<rparr>"

definition sound_snapshot :: RateLimitInfo where
  "sound_snapshot =
     \<lparr>remaining = 9, resetTime = 60000, requestsInLastMinute = 1, maxRequestsPerMinute = 10\<rparr>"

text \<open>A run of \<open>req_a\<close>: its first call fails at 100 with the failure body
  above, the item is put back at 2100 and dispatched again at 6100, and the
  second call succeeds at 6200 with a body without snapshot.\<close>

definition retry_run :: "RateLimitInfo \<Rightarrow> (int \<times> event) list" where
  "retry_run info =
     [(0, OnResult), (0, AddToQueue req_a), (0, StartProcessing),
      (100, Settle item_a (failure_with info)),
      (2100, Fire 1), (6100, Fire 2),
      (6200, Settle (item_a\<lparr>retryCount := 1, lastAttempt := Some 6100\<rparr>) ok_response)]"

section \<open>Counting retries\<close>

text \<open>The number of times the request was dispatched again after its first
  dispatch, read from the log of remote calls.\<close>

definition retries_of :: "string \<Rightarrow> VideoAnalysisQueue \<Rightarrow> nat" where
  "retries_of requestId q =
     length (filter (\<lambda>(t, item). req_id (request item) = requestId) (issued q)) - 1"

section \<open>Properties\<close>

subsection \<open>Projections and case lemmas of the queue operations\<close>

lemma state_saveToStorage [simp]: "state (saveToStorage q) = state q"
  by (simp add: saveToStorage_def)

lemma clearTimers_proj [simp]:
  "state (clearTimers q) = state q"
  "emitted (clearTimers q) = emitted q"
  "resultCallback (clearTimers q) = resultCallback q"
  "inflight (clearTimers q) = inflight q"
  "issued (clearTimers q) = issued q"
  "nextHandle (clearTimers q) = nextHandle q"
  "localStorage (clearTimers q) = localStorage q"
  "processingTimer (clearTimers q) = None"
  "rateLimitTimer (clearTimers q) = None"
  by (simp_all add: clearTimers_def clearTimeout_def Let_def split: option.splits)

lemma saveToStorage_proj [simp]:
  "emitted (saveToStorage q) = emitted q"
  "resultCallback (saveToStorage q) = resultCallback q"
  "inflight (saveToStorage q) = inflight q"
  "issued (saveToStorage q) = issued q"
  "nextHandle (saveToStorage q) = nextHandle q"
  "timeouts (saveToStorage q) = timeouts q"
  "processingTimer (saveToStorage q) = processingTimer q"
  "rateLimitTimer (saveToStorage q) = rateLimitTimer q"
  by (simp_all add: saveToStorage_def)

lemma state_notifyResult [simp]: "state (notifyResult r q) = state q"
  by (simp add: notifyResult_def)

lemma state_setTimeout [simp]: "state (snd (setTimeout a d now q)) = state q"
  by (simp add: setTimeout_def)

lemma pva_failure:
  "failure outcome = Some m \<Longrightarrow> fst (processVideoAnalysis now req outcome q) = Inl m"
  by (auto simp: failure_def processVideoAnalysis_def Let_def split: remote_outcome.splits if_splits)

lemma pva_flags:
  "isProcessing (state (snd (processVideoAnalysis now req outcome q))) = isProcessing (state q)"
  "isPaused (state (snd (processVideoAnalysis now req outcome q))) = isPaused (state q)"
  "items (state (snd (processVideoAnalysis now req outcome q))) = items (state q)"
  "statistics (state (snd (processVideoAnalysis now req outcome q))) = statistics (state q)"
  "emitted (snd (processVideoAnalysis now req outcome q)) = emitted q"
  "resultCallback (snd (processVideoAnalysis now req outcome q)) = resultCallback q"
  by (auto simp: processVideoAnalysis_def Let_def split: remote_outcome.splits option.splits)

lemma pva_proj:
  "timeouts (snd (processVideoAnalysis now req outcome q)) = timeouts q"
  "nextHandle (snd (processVideoAnalysis now req outcome q)) = nextHandle q"
  "inflight (snd (processVideoAnalysis now req outcome q)) = inflight q"
  "issued (snd (processVideoAnalysis now req outcome q)) = issued q"
  "processingTimer (snd (processVideoAnalysis now req outcome q)) = processingTimer q"
  "rateLimitTimer (snd (processVideoAnalysis now req outcome q)) = rateLimitTimer q"
  by (auto simp: processVideoAnalysis_def Let_def split: remote_outcome.splits option.splits)

lemma pva_cases:
  "fst (processVideoAnalysis now req outcome q) =
     (case failure outcome of
        Some m \<Rightarrow> Inl m
      | None \<Rightarrow> Inr \<lparr>res_id = req_id req, res_filename = filename req,
                      status = Completed,
                      res_data = (case outcome of Rejected _ \<Rightarrow> None | Responded r \<Rightarrow> data r),
                      res_error = None,
                      res_createdAt = createdAt req, completedAt = now\<rparr>)"
  by (auto simp: failure_def processVideoAnalysis_def Let_def split: remote_outcome.splits if_splits)

lemma hpe_flags:
  "isProcessing (state (handleProcessingError now item m q)) = isProcessing (state q)"
  "isPaused (state (handleProcessingError now item m q)) = isPaused (state q)"
  by (auto simp: handleProcessingError_def Let_def)

lemma hpe_terminal:
  "\<not> (isRetryableError m \<and> retryCount item + 1 < maxRetries item) \<Longrightarrow>
   handleProcessingError now item m q =
     saveToStorage
             (notifyResult
                \<lparr>res_id = req_id (request item), res_filename = filename (request item),
                 status = Error, res_data = None, res_error = Some m,
                 res_createdAt = createdAt (request item), completedAt = now\<rparr>
                (q\<lparr>state := (state q)
                      \<lparr>statistics := (statistics (state q))
                         \<lparr>errorCount := errorCount (statistics (state q)) + 1,
                          totalProcessed := totalProcessed (statistics (state q)) + 1\<rparr>\<rparr>\<rparr>))"
  by (auto simp: handleProcessingError_def Let_def)

lemma hpe_retry:
  "isRetryableError m \<Longrightarrow> retryCount item + 1 < maxRetries item \<Longrightarrow>
   handleProcessingError now item m q =
     saveToStorage (snd (setTimeout (Requeue (item\<lparr>retryCount := retryCount item + 1\<rparr>))
        (RETRY_BACKOFF_BASE * 2 ^ retryCount item) now q))"
  by (auto simp: handleProcessingError_def Let_def)

lemma hpe_unfold:
  "handleProcessingError now item m q =
     (if isRetryableError m \<and> retryCount item + 1 < maxRetries item then
        saveToStorage (snd (setTimeout (Requeue (item\<lparr>retryCount := retryCount item + 1\<rparr>))
          (RETRY_BACKOFF_BASE * 2 ^ retryCount item) now q))
      else saveToStorage
             (notifyResult
                \<lparr>res_id = req_id (request item), res_filename = filename (request item),
                 status = Error, res_data = None, res_error = Some m,
                 res_createdAt = createdAt (request item), completedAt = now\<rparr>
                (q\<lparr>state := (state q)
                      \<lparr>statistics := (statistics (state q))
                         \<lparr>errorCount := errorCount (statistics (state q)) + 1,
                          totalProcessed := totalProcessed (statistics (state q)) + 1\<rparr>\<rparr>\<rparr>)))"
  using hpe_retry [of m item now q] hpe_terminal [of m item now q] by auto

lemma hpe_retry_proj:
  assumes "isRetryableError m" "retryCount item + 1 < maxRetries item"
  shows "timeouts (handleProcessingError now item m q) =
           timeouts q @ [\<lparr>handle = nextHandle q,
                          fireAt = now + RETRY_BACKOFF_BASE * 2 ^ retryCount item,
                          action = Requeue (item\<lparr>retryCount := retryCount item + 1\<rparr>)\<rparr>]"
    and "nextHandle (handleProcessingError now item m q) = Suc (nextHandle q)"
    and "emitted (handleProcessingError now item m q) = emitted q"
    and "state (handleProcessingError now item m q) = state q"
  using assms by (simp_all add: hpe_retry setTimeout_def)

lemma hpe_terminal_proj:
  assumes "\<not> (isRetryableError m \<and> retryCount item + 1 < maxRetries item)"
  shows "timeouts (handleProcessingError now item m q) = timeouts q"
    and "nextHandle (handleProcessingError now item m q) = nextHandle q"
  using assms by (simp_all add: hpe_terminal notifyResult_def)

lemma resume_unfold:
  "processNext_resume now item outcome q =
     (let q0 = q\<lparr>inflight := remove1 item (inflight q)\<rparr>;
          q1 = snd (processVideoAnalysis now (request item) outcome q0);
          q2 = (case failure outcome of
                  None \<Rightarrow>
                    notifyResult
                      \<lparr>res_id = req_id (request item), res_filename = filename (request item),
                       status = Completed,
                       res_data = (case outcome of Rejected _ \<Rightarrow> None | Responded r \<Rightarrow> data r),
                       res_error = None,
                       res_createdAt = createdAt (request item), completedAt = now\<rparr>
                      (saveToStorage
                         (q1\<lparr>state := (state q1)
                               \<lparr>statistics := (statistics (state q1))
                                  \<lparr>successCount := successCount (statistics (state q1)) + 1,
                                   totalProcessed := totalProcessed (statistics (state q1)) + 1\<rparr>,
                                rateLimitInfo := decrementRateLimit (rateLimitInfo (state q1))\<rparr>\<rparr>))
                | Some m \<Rightarrow> handleProcessingError now item m q1)
      in (snd (setTimeout ProcessNext PROCESSING_DELAY now q2))\<lparr>processingTimer := Some (nextHandle q2)\<rparr>)"
proof -
  obtain r q1 where p: "processVideoAnalysis now (request item) outcome (q\<lparr>inflight := remove1 item (inflight q)\<rparr>) = (r, q1)"
    by fastforce
  have r: "r = (case failure outcome of
        Some m \<Rightarrow> Inl m
      | None \<Rightarrow> Inr \<lparr>res_id = req_id (request item), res_filename = filename (request item),
                      status = Completed,
                      res_data = (case outcome of Rejected _ \<Rightarrow> None | Responded r \<Rightarrow> data r),
                      res_error = None,
                      res_createdAt = createdAt (request item), completedAt = now\<rparr>)"
    using pva_cases [of now "request item" outcome "q\<lparr>inflight := remove1 item (inflight q)\<rparr>"] p by simp
  show ?thesis
    by (cases "failure outcome") (simp_all add: processNext_resume_def p r Let_def setTimeout_def)
qed

lemma resume_flags:
  "isProcessing (state (processNext_resume now item outcome q)) = isProcessing (state q)"
  "isPaused (state (processNext_resume now item outcome q)) = isPaused (state q)"
  by (simp_all add: resume_unfold Let_def setTimeout_def hpe_flags pva_flags split: option.splits)

lemma resume_proj:
  "inflight (processNext_resume now item outcome q) = remove1 item (inflight q)"
  "issued (processNext_resume now item outcome q) = issued q"
  "resultCallback (processNext_resume now item outcome q) = resultCallback q"
  "items (state (processNext_resume now item outcome q)) = items (state q)"
  by (simp_all add: resume_unfold Let_def setTimeout_def pva_proj pva_flags hpe_unfold notifyResult_def
      split: option.splits)

lemma resume_success_stats:
  "failure outcome = None \<Longrightarrow>
   statistics (state (processNext_resume now item outcome q)) =
     (statistics (state q))\<lparr>successCount := successCount (statistics (state q)) + 1,
                           totalProcessed := totalProcessed (statistics (state q)) + 1\<rparr>"
  by (simp add: resume_unfold Let_def setTimeout_def pva_flags)

lemma resume_success_emitted:
  "failure outcome = None \<Longrightarrow>
   emitted (processNext_resume now item outcome q) =
     (if resultCallback q then emitted q @ [\<lparr>res_id = req_id (request item), res_filename = filename (request item),
                       status = Completed,
                       res_data = (case outcome of Rejected _ \<Rightarrow> None | Responded r \<Rightarrow> data r),
                       res_error = None,
                       res_createdAt = createdAt (request item), completedAt = now\<rparr>] else emitted q)"
  by (simp add: resume_unfold Let_def setTimeout_def pva_flags notifyResult_def saveToStorage_def)

lemma resume_terminal_stats:
  "failure outcome = Some m \<Longrightarrow> \<not> (isRetryableError m \<and> retryCount item + 1 < maxRetries item) \<Longrightarrow>
   statistics (state (processNext_resume now item outcome q)) =
     (statistics (state q))\<lparr>errorCount := errorCount (statistics (state q)) + 1,
                           totalProcessed := totalProcessed (statistics (state q)) + 1\<rparr>"
  by (simp add: resume_unfold Let_def setTimeout_def pva_flags hpe_terminal)

lemma resume_terminal_emitted:
  "failure outcome = Some m \<Longrightarrow> \<not> (isRetryableError m \<and> retryCount item + 1 < maxRetries item) \<Longrightarrow>
   emitted (processNext_resume now item outcome q) =
     (if resultCallback q then emitted q @ [\<lparr>res_id = req_id (request item), res_filename = filename (request item),
                 status = Error, res_data = None, res_error = Some m,
                 res_createdAt = createdAt (request item), completedAt = now\<rparr>] else emitted q)"
  by (simp add: resume_unfold Let_def setTimeout_def pva_flags hpe_terminal notifyResult_def)

lemma resume_retry_timeouts:
  assumes "failure outcome = Some m" "isRetryableError m" "retryCount item + 1 < maxRetries item"
  shows "timeouts (processNext_resume now item outcome q) =
           timeouts q @ [\<lparr>handle = nextHandle q,
                          fireAt = now + RETRY_BACKOFF_BASE * 2 ^ retryCount item,
                          action = Requeue (item\<lparr>retryCount := retryCount item + 1\<rparr>)\<rparr>,
                         \<lparr>handle = Suc (nextHandle q), fireAt = now + PROCESSING_DELAY,
                          action = ProcessNext\<rparr>]"
    and "emitted (processNext_resume now item outcome q) = emitted q"
    and "statistics (state (processNext_resume now item outcome q)) = statistics (state q)"
    and "items (state (processNext_resume now item outcome q)) = items (state q)"
  using assms by (simp_all add: resume_unfold Let_def setTimeout_def hpe_retry_proj pva_proj pva_flags)

lemma resume_terminal_timeouts:
  assumes "failure outcome = Some m" "\<not> (isRetryableError m \<and> retryCount item + 1 < maxRetries item)"
  shows "timeouts (processNext_resume now item outcome q) =
           timeouts q @ [\<lparr>handle = nextHandle q, fireAt = now + PROCESSING_DELAY,
                          action = ProcessNext\<rparr>]"
  using assms by (simp add: resume_unfold Let_def setTimeout_def hpe_terminal_proj pva_proj)

lemma resume_arms_next:
  "\<exists>ts. timeouts (processNext_resume now item outcome q) =
      ts @ [\<lparr>handle = nextHandle (processNext_resume now item outcome q) - 1, fireAt = now + PROCESSING_DELAY, action = ProcessNext\<rparr>]"
  by (simp add: resume_unfold Let_def setTimeout_def)

lemma processNext_idle: "\<not> isProcessing (state q) \<Longrightarrow> processNext now q = q"
  by (simp add: processNext_def Let_def)

lemma stop_flags:
  "\<not> isProcessing (state (stopProcessing q))" "\<not> isPaused (state (stopProcessing q))"
  "statistics (state (stopProcessing q)) = statistics (state q)"
  "emitted (stopProcessing q) = emitted q"
  "resultCallback (stopProcessing q) = resultCallback q"
  by (simp_all add: stopProcessing_def)

lemma stopProcessing_proj [simp]:
  "items (state (stopProcessing q)) = items (state q)"
  "inflight (stopProcessing q) = inflight q"
  "issued (stopProcessing q) = issued q"
  by (simp_all add: stopProcessing_def)

lemma find_fresh_handle:
  "\<forall>t\<in>set ts. handle t < h \<Longrightarrow> handle x = h \<Longrightarrow>
   find (\<lambda>t. handle t = h) (ts @ x # us) = Some x"
  by (induction ts) auto

lemma fire_found:
  "find (\<lambda>t. handle t = h) (timeouts q) = Some t \<Longrightarrow>
   fire now h q =
     (case action t of
        ProcessNext \<Rightarrow> processNext now (clearTimeout h q)
      | Requeue item \<Rightarrow>
          saveToStorage ((clearTimeout h q)\<lparr>state := (state (clearTimeout h q))
             \<lparr>items := item # items (state (clearTimeout h q))\<rparr>\<rparr>))"
  by (simp add: fire_def Let_def)

lemma fire_requeue:
  assumes "\<forall>t\<in>set ts. handle t < h"
    and "timeouts q = ts @ \<lparr>handle = h, fireAt = w, action = Requeue item\<rparr> # us"
  shows "items (state (fire later h q)) = item # items (state q)"
proof -
  have "find (\<lambda>t. handle t = h) (timeouts q) = Some \<lparr>handle = h, fireAt = w, action = Requeue item\<rparr>"
    using assms find_fresh_handle [of ts h "\<lparr>handle = h, fireAt = w, action = Requeue item\<rparr>" us] by simp
  then show ?thesis
    by (simp add: fire_def Let_def clearTimeout_def)
qed

lemma thrownMessage_retryAfter:
  "thrownMessage (resp\<lparr>api_error := Some (err\<lparr>retryAfter := ra\<rparr>)\<rparr>)
     = thrownMessage (resp\<lparr>api_error := Some err\<rparr>)"
  by (simp add: thrownMessage_def)

lemma pva_ignores_retryAfter:
  "processVideoAnalysis now req (Responded (resp\<lparr>api_error := Some (err\<lparr>retryAfter := ra\<rparr>)\<rparr>)) q
     = processVideoAnalysis now req (Responded (resp\<lparr>api_error := Some err\<rparr>)) q"
  by (simp add: processVideoAnalysis_def thrownMessage_retryAfter Let_def)

lemma resume_ignores_retryAfter:
  "processNext_resume now item (Responded (resp\<lparr>api_error := Some (err\<lparr>retryAfter := ra\<rparr>)\<rparr>)) q
     = processNext_resume now item (Responded (resp\<lparr>api_error := Some err\<rparr>)) q"
  by (simp only: processNext_resume_def pva_ignores_retryAfter)

lemma resume_last_timeout:
  "last (timeouts (processNext_resume now item outcome q)) =
     \<lparr>handle = nextHandle (processNext_resume now item outcome q) - 1,
      fireAt = now + PROCESSING_DELAY, action = ProcessNext\<rparr>"
  using resume_arms_next [of now item outcome q] by auto

lemma retryFailedItem_absent:
  "find (\<lambda>item. req_id (request item) = requestId) (items (state q)) = None \<Longrightarrow>
   retryFailedItem now requestId q = q"
  by (simp add: retryFailedItem_def)

lemma retryFailedItem_running:
  "isProcessing (state q) \<Longrightarrow>
   find (\<lambda>item. req_id (request item) = requestId) (items (state q)) = Some item \<Longrightarrow>
   retryFailedItem now requestId q =
     q\<lparr>state := (state q)\<lparr>items := resetFirst requestId (items (state q))\<rparr>\<rparr>"
  by (simp add: retryFailedItem_def Let_def)

subsection \<open>Starting and stopping\<close>

text \<open>
  C10. Calling \<open>startProcessing\<close> while the queue is already processing changes
  nothing: the items, the flags, the statistics with the recorded start time, the
  timers, the calls in flight and the log of issued calls are the same, so no
  second dispatch loop is started.
\<close>

theorem startProcessing_running_noop:
  "isProcessing (state q) \<Longrightarrow> startProcessing now q = q"
  by (simp add: startProcessing_def)

theorem startProcessing_running_noop_witness:
  "isProcessing (state started_a) \<and> startProcessing 5 started_a = started_a"
proof -
  have running: "isProcessing (state started_a)"
    by code_simp
  from running startProcessing_running_noop [of started_a 5] show ?thesis
    by simp
qed

text \<open>
  C1 (as amended). When a call is in flight at the time of \<open>stopProcessing\<close> and
  settles afterwards, the queue stays stopped: \<open>isProcessing\<close> and \<open>isPaused\<close>
  are false and a later loop iteration changes nothing. The result is not
  discarded, though: a success raises \<open>completedCount\<close> by one and is emitted to
  the subscribed result callback, a terminal failure raises \<open>errorCount\<close> by
  one and is emitted as an error result, and a retryable failure with retry
  budget left arms the re-insertion of the item at the head of the list.
\<close>

theorem stop_then_settle:
  "\<not> isProcessing (state (processNext_resume now item outcome (stopProcessing q)))
   \<and> \<not> isPaused (state (processNext_resume now item outcome (stopProcessing q)))
   \<and> processNext later (processNext_resume now item outcome (stopProcessing q))
       = processNext_resume now item outcome (stopProcessing q)
   \<and> (failure outcome = None \<longrightarrow>
        completedCount (getQueueStatus (processNext_resume now item outcome (stopProcessing q)))
          = completedCount (getQueueStatus q) + 1
        \<and> (resultCallback q \<longrightarrow>
             emitted (processNext_resume now item outcome (stopProcessing q))
               = emitted q @ [\<lparr>res_id = req_id (request item), res_filename = filename (request item),
                       status = Completed,
                       res_data = (case outcome of Rejected _ \<Rightarrow> None | Responded r \<Rightarrow> data r),
                       res_error = None,
                       res_createdAt = createdAt (request item), completedAt = now\<rparr>]))
   \<and> (\<forall>m. failure outcome = Some m
          \<and> \<not> (isRetryableError m \<and> retryCount item + 1 < maxRetries item) \<longrightarrow>
        qs_errorCount (getQueueStatus (processNext_resume now item outcome (stopProcessing q)))
          = qs_errorCount (getQueueStatus q) + 1
        \<and> (resultCallback q \<longrightarrow>
             emitted (processNext_resume now item outcome (stopProcessing q))
               = emitted q @ [\<lparr>res_id = req_id (request item), res_filename = filename (request item),
                 status = Error, res_data = None, res_error = Some m,
                 res_createdAt = createdAt (request item), completedAt = now\<rparr>]))
   \<and> (\<forall>m. failure outcome = Some m
          \<and> isRetryableError m \<and> retryCount item + 1 < maxRetries item \<longrightarrow>
        emitted (processNext_resume now item outcome (stopProcessing q)) = emitted q
        \<and> statistics (state (processNext_resume now item outcome (stopProcessing q)))
            = statistics (state q)
        \<and> map action (timeouts (processNext_resume now item outcome (stopProcessing q)))
            = map action (timeouts (stopProcessing q))
                @ [Requeue (item\<lparr>retryCount := retryCount item + 1\<rparr>), ProcessNext])"
  by (simp add: resume_flags stop_flags processNext_idle resume_success_stats resume_success_emitted
      resume_terminal_stats resume_terminal_emitted resume_retry_timeouts getQueueStatus_def Let_def)

theorem stop_then_settle_witness:
  "(failure ok_response = None \<and> resultCallback started_a
    \<and> \<not> isProcessing (state late_a)
    \<and> completedCount (getQueueStatus late_a) = completedCount (getQueueStatus started_a) + 1
    \<and> length (emitted late_a) = length (emitted started_a) + 1)
   \<and> (failure bad_format = Some ''Unsupported video format''
    \<and> \<not> isRetryableError ''Unsupported video format''
    \<and> qs_errorCount (getQueueStatus late_failed_a) = qs_errorCount (getQueueStatus started_a) + 1
    \<and> length (emitted late_failed_a) = length (emitted started_a) + 1)
   \<and> (isRetryableError ''Network request failed'' \<and> retryCount item_a + 1 < maxRetries item_a
    \<and> map action (timeouts late_retrying_a) = [Requeue (item_a\<lparr>retryCount := 1\<rparr>), ProcessNext])"
proof -
  have e: "failure (Rejected ''Network request failed'') = Some ''Network request failed''"
    by (simp add: failure_def)
  have f: "isRetryableError ''Network request failed''" by code_simp
  have g: "retryCount item_a + 1 < maxRetries item_a" by code_simp
  have h: "timeouts (stopProcessing started_a) = []" by code_simp
  have a: "failure ok_response = None" by code_simp
  have b: "resultCallback started_a" by code_simp
  have c: "failure bad_format = Some ''Unsupported video format''" by code_simp
  have d: "\<not> isRetryableError ''Unsupported video format''" by code_simp
  from a b stop_then_settle [of 100 item_a ok_response started_a 0]
  have "\<not> isProcessing (state late_a)
    \<and> completedCount (getQueueStatus late_a) = completedCount (getQueueStatus started_a) + 1
    \<and> length (emitted late_a) = length (emitted started_a) + 1"
    by (simp add: late_a_def stopped_a_def)
  moreover from b c d stop_then_settle [of 100 item_a bad_format started_a 0]
  have "qs_errorCount (getQueueStatus late_failed_a) = qs_errorCount (getQueueStatus started_a) + 1
    \<and> length (emitted late_failed_a) = length (emitted started_a) + 1"
    by (simp add: late_failed_a_def stopped_a_def)
  moreover from e f g h
    stop_then_settle [of 100 item_a "Rejected ''Network request failed''" started_a 0]
  have "map action (timeouts late_retrying_a) = [Requeue (item_a\<lparr>retryCount := 1\<rparr>), ProcessNext]"
    by (simp add: late_retrying_a_def stopped_a_def item_a_def)
  ultimately show ?thesis using a b c d f g by simp
qed

text \<open>The claim as stated fails on the run above: the success that arrives after
  the stop is emitted and counted.\<close>

theorem stop_then_settle_counterexample:
  "\<not> (emitted late_a = emitted stopped_a
      \<and> completedCount (getQueueStatus late_a) = completedCount (getQueueStatus stopped_a)
      \<and> qs_errorCount (getQueueStatus late_a) = qs_errorCount (getQueueStatus stopped_a)
      \<and> \<not> qs_isProcessing (getQueueStatus late_a))"
proof -
  have "completedCount (getQueueStatus stopped_a) = 0" by code_simp
  moreover have "completedCount (getQueueStatus late_a) = 1" by code_simp
  ultimately show ?thesis by simp
qed

subsection \<open>Persistence\<close>

lemma loadFromStorage_items [simp]: "items (state (loadFromStorage q)) = items (state q)"
  "isProcessing (state (loadFromStorage q)) = isProcessing (state q)"
  "isPaused (state (loadFromStorage q)) = isPaused (state q)"
  by (simp_all add: loadFromStorage_def Let_def split: stored.splits option.splits)

lemma loadFromStorage_statistics:
  "localStorage q = Json p \<Longrightarrow> p_statistics p = Some s \<Longrightarrow>
   statistics (state (loadFromStorage q)) = s"
  by (simp add: loadFromStorage_def Let_def split: option.splits)

lemma loadFromStorage_rateLimitInfo:
  "localStorage q = Json p \<Longrightarrow> p_rateLimitInfo p = Some info \<Longrightarrow>
   rateLimitInfo (state (loadFromStorage q)) = info"
  by (simp add: loadFromStorage_def Let_def split: option.splits)

lemma loadFromStorage_nothing:
  "localStorage q = NoEntry \<or> localStorage q = Unparsable \<Longrightarrow> loadFromStorage q = q"
  by (auto simp: loadFromStorage_def)

text \<open>
  C5 (as amended). A fresh scheduler never has pending items and is not
  processing, whatever the storage holds. It takes over the stored statistics
  whenever the entry has them, also when the stored snapshot's \<open>resetTime\<close> has
  passed, and it takes over a stored rate-limit snapshot whose \<open>resetTime\<close> has
  not passed. A missing or unparsable entry leaves the initial state. Saving a
  queue and loading the entry into a fresh scheduler reproduces the statistics,
  and the rate-limit record when it has not expired.
\<close>

theorem load_restores:
  "items (state (new_queue D now st)) = []
   \<and> \<not> isProcessing (state (new_queue D now st))
   \<and> (st = NoEntry \<or> st = Unparsable \<longrightarrow> state (new_queue D now st) = initializeState D now)
   \<and> (\<forall>p s. st = Json p \<and> p_statistics p = Some s \<longrightarrow>
         statistics (state (new_queue D now st)) = s)
   \<and> (\<forall>p info. st = Json p \<and> p_rateLimitInfo p = Some info \<and> now \<le> resetTime info \<longrightarrow>
         rateLimitInfo (state (new_queue D now st)) = info)
   \<and> items (state (new_queue D now (localStorage (saveToStorage q)))) = []
   \<and> statistics (state (new_queue D now (localStorage (saveToStorage q)))) = statistics (state q)
   \<and> (now \<le> resetTime (rateLimitInfo (state q)) \<longrightarrow>
        rateLimitInfo (state (new_queue D now (localStorage (saveToStorage q))))
          = rateLimitInfo (state q))"
proof -
  have 1: "items (state (new_queue D now st)) = []" "\<not> isProcessing (state (new_queue D now st))" for st
    by (simp_all add: new_queue_def initializeState_def)
  have 2: "st = NoEntry \<or> st = Unparsable \<longrightarrow> state (new_queue D now st) = initializeState D now"
    by (auto simp: new_queue_def loadFromStorage_nothing)
  have 3: "\<forall>p s. st = Json p \<and> p_statistics p = Some s \<longrightarrow>
         statistics (state (new_queue D now st)) = s"
    by (auto simp: new_queue_def loadFromStorage_statistics)
  have 4: "\<forall>p info. st = Json p \<and> p_rateLimitInfo p = Some info \<and> now \<le> resetTime info \<longrightarrow>
         rateLimitInfo (state (new_queue D now st)) = info"
    by (auto simp: new_queue_def loadFromStorage_rateLimitInfo)
  have 5: "statistics (state (new_queue D now (localStorage (saveToStorage q)))) = statistics (state q)"
    by (simp add: new_queue_def saveToStorage_def loadFromStorage_statistics)
  have 6: "rateLimitInfo (state (new_queue D now (localStorage (saveToStorage q))))
          = rateLimitInfo (state q)"
    by (simp add: new_queue_def saveToStorage_def loadFromStorage_rateLimitInfo)
  from 1 2 3 4 5 6 show ?thesis by blast
qed

theorem load_restores_witness:
  "expired_entry = Json \<lparr>p_items = [serializeItem (newItem req_a)], p_isProcessing = True, p_isPaused = False,
           p_rateLimitInfo = Some expired_snapshot, p_statistics = Some saved_statistics\<rparr>
   \<and> 30000 \<le> resetTime expired_snapshot
   \<and> items (state reloaded_early) = []
   \<and> statistics (state reloaded_early) = saved_statistics
   \<and> rateLimitInfo (state reloaded_early) = expired_snapshot
   \<and> state (new_queue 10 30000 NoEntry) = initializeState 10 30000
   \<and> 0 \<le> resetTime (rateLimitInfo (state started_a))
   \<and> rateLimitInfo (state (new_queue 10 0 (localStorage (saveToStorage started_a))))
          = rateLimitInfo (state started_a)"
proof -
  have a: "30000 \<le> resetTime expired_snapshot" by (simp add: expired_snapshot_def)
  have b: "0 \<le> resetTime (rateLimitInfo (state started_a))" by code_simp
  from a load_restores [of 10 30000 expired_entry started_a]
  have "items (state reloaded_early) = []
   \<and> statistics (state reloaded_early) = saved_statistics
   \<and> rateLimitInfo (state reloaded_early) = expired_snapshot"
    by (simp add: reloaded_early_def expired_entry_def)
  moreover from load_restores [of 10 30000 NoEntry started_a]
  have "state (new_queue 10 30000 NoEntry) = initializeState 10 30000" by simp
  moreover from b load_restores [of 10 0 NoEntry started_a]
  have "rateLimitInfo (state (new_queue 10 0 (localStorage (saveToStorage started_a))))
          = rateLimitInfo (state started_a)" by simp
  ultimately show ?thesis using a b by (simp add: expired_entry_def)
qed

text \<open>The claim as stated fails: an entry whose snapshot expired at 60000 is
  loaded at 100000, and the stored statistics are restored all the same.\<close>

theorem load_restores_counterexample:
  "resetTime expired_snapshot < 100000
   \<and> statistics (state reloaded_late) = saved_statistics
   \<and> saved_statistics \<noteq> statistics (initializeState 10 100000)"
  by (simp add: reloaded_late_def new_queue_def expired_entry_def loadFromStorage_def
      saved_statistics_def expired_snapshot_def initializeState_def)

subsection \<open>Failures of the remote call\<close>

text \<open>
  C9. One tick of the dispatch loop turns every failure of the remote call into
  a state of the queue. When \<open>processVideoAnalysis\<close> throws (a rejected fetch, an
  unreadable body or a failure body), the catch block either arms the
  re-insertion of the item, with its retry count raised, at the head of the
  list after the backoff \<open>RETRY_BACKOFF_BASE * 2 ^ retryCount\<close> and emits
  nothing, or counts a terminal error and emits a result with status error; in
  both cases the next iteration is armed and nothing is thrown further.
\<close>

theorem tick_failure_is_caught:
  assumes "failure outcome = Some m"
  shows "fst (processVideoAnalysis now (request item) outcome q) = Inl m
    \<and> (isRetryableError m \<and> retryCount item + 1 < maxRetries item \<longrightarrow>
         timeouts (processNext_resume now item outcome q) =
           timeouts q @ [\<lparr>handle = nextHandle q,
                          fireAt = now + RETRY_BACKOFF_BASE * 2 ^ retryCount item,
                          action = Requeue (item\<lparr>retryCount := retryCount item + 1\<rparr>)\<rparr>,
                         \<lparr>handle = Suc (nextHandle q), fireAt = now + PROCESSING_DELAY,
                          action = ProcessNext\<rparr>]
         \<and> emitted (processNext_resume now item outcome q) = emitted q
         \<and> statistics (state (processNext_resume now item outcome q)) = statistics (state q)
         \<and> ((\<forall>t\<in>set (timeouts q). handle t < nextHandle q) \<longrightarrow>
              items (state (fire later (nextHandle q) (processNext_resume now item outcome q)))
                = item\<lparr>retryCount := retryCount item + 1\<rparr> # items (state q)))
    \<and> (\<not> (isRetryableError m \<and> retryCount item + 1 < maxRetries item) \<longrightarrow>
         timeouts (processNext_resume now item outcome q) =
           timeouts q @ [\<lparr>handle = nextHandle q, fireAt = now + PROCESSING_DELAY,
                          action = ProcessNext\<rparr>]
         \<and> statistics (state (processNext_resume now item outcome q)) =
             (statistics (state q))\<lparr>errorCount := errorCount (statistics (state q)) + 1,
                                   totalProcessed := totalProcessed (statistics (state q)) + 1\<rparr>
         \<and> emitted (processNext_resume now item outcome q) =
             (if resultCallback q
              then emitted q @ [\<lparr>res_id = req_id (request item),
                                 res_filename = filename (request item),
                                 status = Error, res_data = None, res_error = Some m,
                                 res_createdAt = createdAt (request item), completedAt = now\<rparr>]
              else emitted q))"
proof -
  have thrown: "fst (processVideoAnalysis now (request item) outcome q) = Inl m"
    using assms by (rule pva_failure)
  have retry: "items (state (fire later (nextHandle q) (processNext_resume now item outcome q)))
                = item\<lparr>retryCount := retryCount item + 1\<rparr> # items (state q)"
    if r: "isRetryableError m" "retryCount item + 1 < maxRetries item"
      and wf: "\<forall>t\<in>set (timeouts q). handle t < nextHandle q"
    using fire_requeue [OF wf, of "processNext_resume now item outcome q"
        "now + RETRY_BACKOFF_BASE * 2 ^ retryCount item" "item\<lparr>retryCount := retryCount item + 1\<rparr>"
        "[\<lparr>handle = Suc (nextHandle q), fireAt = now + PROCESSING_DELAY, action = ProcessNext\<rparr>]" later]
      resume_retry_timeouts [OF assms r, of now q]
    by simp
  show ?thesis
    using thrown retry resume_retry_timeouts [OF assms, of item now q]
      resume_terminal_timeouts [OF assms, of item now q]
      resume_terminal_stats [OF assms, of item now q]
      resume_terminal_emitted [OF assms, of item now q]
    by auto
qed

theorem tick_failure_is_caught_witness:
  "(failure network_down = Some ''Network request failed''
    \<and> isRetryableError ''Network request failed'' \<and> retryCount item_a + 1 < maxRetries item_a
    \<and> map fireAt (timeouts retrying_a) = [100 + 2000, 100 + 6000]
    \<and> items (state (fire 2100 (nextHandle started_a) retrying_a)) = [item_a\<lparr>retryCount := 1\<rparr>])
   \<and> (failure bad_format = Some ''Unsupported video format''
    \<and> \<not> isRetryableError ''Unsupported video format''
    \<and> resultCallback started_a
    \<and> map fireAt (timeouts failed_a) = [100 + 6000]
    \<and> map status (emitted failed_a) = [Error]
    \<and> errorCount (statistics (state failed_a)) = 1)"
proof -
  have a: "failure network_down = Some ''Network request failed''" by code_simp
  have b: "isRetryableError ''Network request failed''" by code_simp
  have c: "retryCount item_a + 1 < maxRetries item_a" by code_simp
  have d: "\<forall>t\<in>set (timeouts started_a). handle t < nextHandle started_a" by code_simp
  have e: "failure bad_format = Some ''Unsupported video format''" by code_simp
  have f: "\<not> isRetryableError ''Unsupported video format''" by code_simp
  have g: "resultCallback started_a" by code_simp
  have h: "timeouts started_a = []" "emitted started_a = []" "items (state started_a) = []"
    "errorCount (statistics (state started_a)) = 0" by code_simp+
  from b c d tick_failure_is_caught [OF a, of 100 item_a started_a 2100]
  have "map fireAt (timeouts retrying_a) = [100 + 2000, 100 + 6000]
    \<and> items (state (fire 2100 (nextHandle started_a) retrying_a)) = [item_a\<lparr>retryCount := 1\<rparr>]"
    by (simp add: retrying_a_def h RETRY_BACKOFF_BASE_def PROCESSING_DELAY_def item_a_def)
  moreover from f g tick_failure_is_caught [OF e, of 100 item_a started_a 0]
  have "map fireAt (timeouts failed_a) = [100 + 6000]
    \<and> map status (emitted failed_a) = [Error]
    \<and> errorCount (statistics (state failed_a)) = 1"
    by (simp add: failed_a_def h PROCESSING_DELAY_def)
  ultimately show ?thesis using a b c e f g by simp
qed

text \<open>
  C6, the code at a failing input. What the loop does when a call settles does
  not depend on the \<open>retryAfter\<close> value of a failure body. The remote call of
  \<open>item_a\<close> fails with the 429 body of route.ts, which carries
  \<open>retryAfter = 10\<close> (seconds), and the item has retry budget: the item is put
  back after the generic backoff of 2000 ms, and its next dispatch happens when
  the snapshot's window resets, 60000 ms after the failure.
\<close>

theorem rate_limited_retry_ignores_retryAfter:
  "processNext_resume now item (Responded (resp\<lparr>api_error := Some (err\<lparr>retryAfter := ra\<rparr>)\<rparr>)) q
     = processNext_resume now item (Responded (resp\<lparr>api_error := Some err\<rparr>)) q
   \<and> timeouts limited_a =
        [\<lparr>handle = 1, fireAt = 100 + 2000, action = Requeue (item_a\<lparr>retryCount := 1\<rparr>)\<rparr>,
         \<lparr>handle = 2, fireAt = 100 + 6000, action = ProcessNext\<rparr>]
   \<and> map fst (issued (snd (run 3 (\<lambda>_. ok_response) 0 (100, limited_a)))) = [0, 60100]"
proof -
  have "timeouts limited_a =
        [\<lparr>handle = 1, fireAt = 100 + 2000, action = Requeue (item_a\<lparr>retryCount := 1\<rparr>)\<rparr>,
         \<lparr>handle = 2, fireAt = 100 + 6000, action = ProcessNext\<rparr>]
   \<and> map fst (issued (snd (run 3 (\<lambda>_. ok_response) 0 (100, limited_a)))) = [0, 60100]"
    by code_simp
  then show ?thesis
    using resume_ignores_retryAfter [where now = now and item = item and resp = resp and err = err
        and ra = ra and q = q]
    by simp
qed

text \<open>
  C7, the code at a failing input. The item \<open>a\<close> has reached a terminal failure
  (its error result was emitted and it is no longer in the pending list). The
  explicit retry of \<open>a\<close> changes nothing: the item is not put back and
  processing does not start.
\<close>

theorem retryFailedItem_terminal_noop:
  "map res_id (emitted failed_a) = [''a''] \<and> map status (emitted failed_a) = [Error]
   \<and> items (state failed_a) = []
   \<and> retryFailedItem 200 ''a'' failed_a = failed_a"
  by code_simp

text \<open>
  C8, the code at a failing input. The next iteration is armed 6000 ms after a
  dispatch settles, whatever the state and the outcome are. With a ceiling of 20
  requests per minute that is 6000 ms where the specification's
  \<open>max (60 / ceiling) 1\<close> seconds are 3000 ms.
\<close>

theorem pacing_delay_is_constant:
  "fireAt (last (timeouts (processNext_resume now item outcome q))) = now + 6000
   \<and> action (last (timeouts (processNext_resume now item outcome q))) = ProcessNext
   \<and> maxRequestsPerMinute (rateLimitInfo (state paced_20)) = 20
   \<and> timeouts paced_20 = [\<lparr>handle = 1, fireAt = 100 + 6000, action = ProcessNext\<rparr>]
   \<and> spec_pacing_delay_ms 20 = 3000"
proof -
  have "maxRequestsPerMinute (rateLimitInfo (state paced_20)) = 20
   \<and> timeouts paced_20 = [\<lparr>handle = 1, fireAt = 100 + 6000, action = ProcessNext\<rparr>]"
    by code_simp
  moreover have "spec_pacing_delay_ms 20 = 3000"
    by (simp add: spec_pacing_delay_ms_def)
  ultimately show ?thesis
    using resume_last_timeout [where now = now and item = item and outcome = outcome and q = q]
    by (simp add: PROCESSING_DELAY_def)
qed

subsection \<open>The server-side limiter\<close>

lemma ceilDiv_ceiling: "ceilDiv a 1000 = \<lceil>real_of_int a / 1000\<rceil>"
  using ceiling_divide_eq_div [of a 1000, where 'a = real] by (simp add: ceilDiv_def)

lemma ceilDiv_pos: "0 < a \<Longrightarrow> 1 \<le> ceilDiv a 1000"
  by (simp add: ceilDiv_def)

lemma checkRateLimit_allowed:
  "allowed (fst (checkRateLimit limit now generated ip requestId store)) \<longleftrightarrow>
     int (length (filter (\<lambda>t. now - RATE_LIMIT_WINDOW_MS < t) (recorded store ip))) < limit"
  by (auto simp: checkRateLimit_def recorded_def Let_def filter_map o_def split: option.splits)

lemma checkRateLimit_recorded:
  "recorded (snd (checkRateLimit limit now generated ip requestId store)) ip =
     (let kept = filter (\<lambda>t. now - RATE_LIMIT_WINDOW_MS < t) (recorded store ip)
      in if limit \<le> int (length kept) then kept else kept @ [now])"
  by (auto simp: checkRateLimit_def recorded_def Let_def filter_map o_def split: option.splits)

lemma checkRateLimit_retryAfter:
  "chk_retryAfter (fst (checkRateLimit limit now generated ip requestId store)) =
     (let kept = filter (\<lambda>t. now - RATE_LIMIT_WINDOW_MS < t) (recorded store ip)
      in if limit \<le> int (length kept)
         then Some (case kept of [] \<Rightarrow> 60
                    | oldest # _ \<Rightarrow> ceilDiv (oldest + RATE_LIMIT_WINDOW_MS - now) 1000)
         else None)"
  by (auto simp: checkRateLimit_def recorded_def Let_def filter_map o_def split: option.splits list.splits)

lemma sorted_filter_hd_Min:
  "sorted xs \<Longrightarrow> filter P xs \<noteq> [] \<Longrightarrow> hd (filter P xs) = Min (set (filter P xs))"
proof -
  assume s: "sorted xs" and ne: "filter P xs \<noteq> []"
  have "sorted (filter P xs)" using s by (rule sorted_wrt_filter)
  then show ?thesis using ne
    by (cases "filter P xs") (auto intro!: Min_eqI [symmetric])
qed

lemma checks_refine:
  assumes "sorted ts" "\<forall>t\<in>set ts. lo \<le> t"
    and "recorded store ip = filter (\<lambda>t. lo - 60000 < t) granted"
  shows "map allowed (checks limit ip ts store) = spec_sliding_window limit granted ts"
  using assms
proof (induction ts arbitrary: store granted lo)
  case Nil
  then show ?case by simp
next
  case (Cons now ts)
  obtain r store1 where step: "checkRateLimit limit now ''req'' ip None store = (r, store1)"
    by fastforce
  have lo: "lo \<le> now" using Cons.prems by simp
  have kept: "filter (\<lambda>t. now - RATE_LIMIT_WINDOW_MS < t) (recorded store ip)
                = filter (\<lambda>t. now - 60000 < t) granted"
    using lo by (auto simp: Cons.prems(3) RATE_LIMIT_WINDOW_MS_def intro!: filter_cong)
  have r: "allowed r \<longleftrightarrow> int (length (filter (\<lambda>t. now - 60000 < t) granted)) < limit"
    using checkRateLimit_allowed [of limit now "''req''" ip None store] step kept by simp
  have rec: "recorded store1 ip =
     (if limit \<le> int (length (filter (\<lambda>t. now - 60000 < t) granted))
      then filter (\<lambda>t. now - 60000 < t) granted
      else filter (\<lambda>t. now - 60000 < t) (granted @ [now]))"
    using checkRateLimit_recorded [of limit now "''req''" ip None store] step kept
    by (simp add: Let_def)
  have later: "sorted ts" "\<forall>t\<in>set ts. now \<le> t" using Cons.prems by auto
  show ?case
  proof (cases "limit \<le> int (length (filter (\<lambda>t. now - 60000 < t) granted))")
    case True
    with rec have "recorded store1 ip = filter (\<lambda>t. now - 60000 < t) granted" by simp
    from Cons.IH [OF later this] True r step show ?thesis by simp
  next
    case False
    with rec have "recorded store1 ip = filter (\<lambda>t. now - 60000 < t) (granted @ [now])" by simp
    from Cons.IH [OF later this] False r step show ?thesis by simp
  qed
qed

text \<open>
  C3. A permission check at time \<open>now\<close> is denied if and only if the number of
  timestamps on record for the caller that are still inside the trailing
  60-second window is at least the per-minute ceiling. A denied check reports a
  retry-after of \<open>\<lceil>(oldest + 60000 - now) / 1000\<rceil>\<close> seconds for the first
  timestamp in the window (the least one when the record is in time order),
  which is never negative, and of 60 seconds when the window is empty. For
  checks issued in time order from an empty store, the answers are those of the
  specification's sliding window over the record of granted checks.
\<close>

theorem checkRateLimit_sliding_window:
  "(let window = filter (\<lambda>t. now - 60000 < t) (recorded store ip);
        answer = fst (checkRateLimit limit now generated ip requestId store)
    in (\<not> allowed answer \<longleftrightarrow> limit \<le> int (length window))
     \<and> (allowed answer \<longrightarrow> chk_retryAfter answer = None)
     \<and> (\<not> allowed answer \<longrightarrow>
          chk_retryAfter answer =
            Some (case window of
                    [] \<Rightarrow> 60
                  | oldest # _ \<Rightarrow> \<lceil>real_of_int (oldest + 60000 - now) / 1000\<rceil>)
          \<and> (\<exists>n. chk_retryAfter answer = Some n \<and> 0 \<le> n)
          \<and> (sorted (recorded store ip) \<and> window \<noteq> [] \<longrightarrow> hd window = Min (set window))))
   \<and> (sorted ts \<longrightarrow>
        map allowed (checks limit ip ts Map.empty) = spec_sliding_window limit [] ts)"
proof -
  let ?window = "filter (\<lambda>t. now - 60000 < t) (recorded store ip)"
  let ?answer = "fst (checkRateLimit limit now generated ip requestId store)"
  have a: "\<not> allowed ?answer \<longleftrightarrow> limit \<le> int (length ?window)"
    using checkRateLimit_allowed [of limit now generated ip requestId store]
    by (simp add: RATE_LIMIT_WINDOW_MS_def not_less)
  have b: "chk_retryAfter ?answer =
     (if limit \<le> int (length ?window)
      then Some (case ?window of [] \<Rightarrow> 60
                 | oldest # _ \<Rightarrow> \<lceil>real_of_int (oldest + 60000 - now) / 1000\<rceil>)
      else None)"
    using checkRateLimit_retryAfter [of limit now generated ip requestId store]
    by (simp add: RATE_LIMIT_WINDOW_MS_def Let_def ceilDiv_ceiling split: list.splits)
  have c: "0 \<le> (case ?window of [] \<Rightarrow> 60
                 | oldest # _ \<Rightarrow> \<lceil>real_of_int (oldest + 60000 - now) / 1000\<rceil>)"
  proof (cases ?window)
    case Nil
    then show ?thesis by simp
  next
    case (Cons oldest rest)
    then have "oldest \<in> set ?window" by simp
    then have "now - 60000 < oldest" by simp
    then have "0 < oldest + 60000 - now" by simp
    from ceilDiv_pos [OF this] show ?thesis by (simp add: Cons ceilDiv_ceiling)
  qed
  have d: "sorted (recorded store ip) \<and> ?window \<noteq> [] \<longrightarrow> hd ?window = Min (set ?window)"
    using sorted_filter_hd_Min [of "recorded store ip" "\<lambda>t. now - 60000 < t"] by blast
  have e: "sorted ts \<longrightarrow>
        map allowed (checks limit ip ts Map.empty) = spec_sliding_window limit [] ts"
  proof
    assume s: "sorted ts"
    show "map allowed (checks limit ip ts Map.empty) = spec_sliding_window limit [] ts"
    proof (cases ts)
      case Nil
      then show ?thesis by simp
    next
      case (Cons t0 rest)
      with s have "\<forall>t\<in>set ts. t0 \<le> t" by auto
      from checks_refine [OF s this, of Map.empty ip "[]" limit] show ?thesis
        by (simp add: recorded_def)
    qed
  qed
  from a b c d e show ?thesis
    unfolding Let_def by (simp only: simp_thms if_True if_False) auto
qed

theorem checkRateLimit_sliding_window_witness:
  "\<not> allowed (fst (checkRateLimit 2 30000 ''g'' ''10.0.0.1'' None full_store))
   \<and> chk_retryAfter (fst (checkRateLimit 2 30000 ''g'' ''10.0.0.1'' None full_store)) = Some 30
   \<and> allowed (fst (checkRateLimit 2 60500 ''g'' ''10.0.0.1'' None full_store))
   \<and> sorted [0, 0, 0, 61000 :: int]
   \<and> map allowed (checks 2 ''10.0.0.1'' [0, 0, 0, 61000] Map.empty) = [True, True, False, True]"
proof -
  have r: "recorded full_store ''10.0.0.1'' = [0, 1000]"
    by (simp add: recorded_def full_store_def)
  have s: "sorted [0, 0, 0, 61000 :: int]" by simp
  from checkRateLimit_sliding_window [of 30000 full_store "''10.0.0.1''" 2 "''g''" None "[0, 0, 0, 61000]"] r s
  have "\<not> allowed (fst (checkRateLimit 2 30000 ''g'' ''10.0.0.1'' None full_store))
   \<and> chk_retryAfter (fst (checkRateLimit 2 30000 ''g'' ''10.0.0.1'' None full_store)) = Some 30
   \<and> map allowed (checks 2 ''10.0.0.1'' [0, 0, 0, 61000] Map.empty) = [True, True, False, True]"
    by (simp add: Let_def)
  moreover
  from checkRateLimit_sliding_window [of 60500 full_store "''10.0.0.1''" 2 "''g''" None "[]"] r
  have "allowed (fst (checkRateLimit 2 60500 ''g'' ''10.0.0.1'' None full_store))"
    by (simp add: Let_def)
  ultimately show ?thesis using s by simp
qed

subsection \<open>The rate-limit record under the events\<close>

lemma consistent_reset: "consistent info \<Longrightarrow> consistent (resetRateLimit now info)"
  by (simp add: consistent_def resetRateLimit_def)

lemma consistent_decrement: "consistent info \<Longrightarrow> consistent (decrementRateLimit info)"
  by (auto simp: consistent_def decrementRateLimit_def)

lemma consistent_initial: "0 \<le> D \<Longrightarrow> consistent (rateLimitInfo (initializeState D now))"
  by (simp add: consistent_def initializeState_def)

lemma rl_stopProcessing [simp]: "rateLimitInfo (state (stopProcessing q)) = rateLimitInfo (state q)"
  by (simp add: stopProcessing_def)

lemma rl_processNext:
  "rateLimitInfo (state (processNext now q)) = rateLimitInfo (state q)
   \<or> rateLimitInfo (state (processNext now q)) = resetRateLimit now (rateLimitInfo (state q))"
  by (auto simp: processNext_def Let_def setTimeout_def split: list.splits)

lemma rl_startProcessing:
  "rateLimitInfo (state (startProcessing now q)) = rateLimitInfo (state q)
   \<or> rateLimitInfo (state (startProcessing now q)) = resetRateLimit now (rateLimitInfo (state q))"
proof (cases "isProcessing (state q)")
  case True
  then show ?thesis by (simp add: startProcessing_def)
next
  case False
  with rl_processNext [of now "saveToStorage
                (q\<lparr>state := (state q)
                      \<lparr>isProcessing := True, isPaused := False,
                       statistics := (statistics (state q))\<lparr>startTime := Some now\<rparr>\<rparr>\<rparr>)"]
  show ?thesis by (simp add: startProcessing_def)
qed

lemma rl_resumeProcessing:
  "rateLimitInfo (state (resumeProcessing now q)) = rateLimitInfo (state q)
   \<or> rateLimitInfo (state (resumeProcessing now q)) = resetRateLimit now (rateLimitInfo (state q))"
  using rl_processNext [of now "saveToStorage (q\<lparr>state := (state q)\<lparr>isPaused := False\<rparr>\<rparr>)"]
  by (simp add: resumeProcessing_def)

lemma rl_retryFailedItem:
  "rateLimitInfo (state (retryFailedItem now requestId q)) = rateLimitInfo (state q)
   \<or> rateLimitInfo (state (retryFailedItem now requestId q)) = resetRateLimit now (rateLimitInfo (state q))"
  using rl_startProcessing [of now "q\<lparr>state := (state q)\<lparr>items := resetFirst requestId (items (state q))\<rparr>\<rparr>"]
  by (auto simp: retryFailedItem_def Let_def split: option.splits)

lemma rl_fire:
  "rateLimitInfo (state (fire now h q)) = rateLimitInfo (state q)
   \<or> rateLimitInfo (state (fire now h q)) = resetRateLimit now (rateLimitInfo (state q))"
proof (cases "find (\<lambda>t. handle t = h) (timeouts q)")
  case None
  then show ?thesis by (simp add: fire_def)
next
  case (Some t)
  show ?thesis
  proof (cases "action t")
    case ProcessNext
    with Some rl_processNext [of now "clearTimeout h q"] show ?thesis
      by (simp add: fire_def Let_def clearTimeout_def)
  next
    case (Requeue item)
    with Some show ?thesis by (simp add: fire_def Let_def clearTimeout_def)
  qed
qed

lemma rl_pva:
  "rateLimitInfo (state (snd (processVideoAnalysis now req outcome q))) =
     (case snapshot_of outcome of None \<Rightarrow> rateLimitInfo (state q) | Some info \<Rightarrow> info)"
  by (auto simp: processVideoAnalysis_def snapshot_of_def Let_def split: remote_outcome.splits option.splits)

lemma rl_hpe [simp]: "rateLimitInfo (state (handleProcessingError now item m q)) = rateLimitInfo (state q)"
  by (simp add: handleProcessingError_def Let_def notifyResult_def)

lemma rl_resume:
  "rateLimitInfo (state (processNext_resume now item outcome q)) =
     (let base = (case snapshot_of outcome of None \<Rightarrow> rateLimitInfo (state q) | Some info \<Rightarrow> info)
      in if failure outcome = None then decrementRateLimit base else base)"
  by (simp add: resume_unfold Let_def setTimeout_def rl_pva split: option.splits)

lemma rl_apply_event:
  "rateLimitInfo (state (apply_event now ev q)) \<in>
     (let old = rateLimitInfo (state q)
      in case event_snapshot ev of
           None \<Rightarrow> {old, resetRateLimit now old, decrementRateLimit old}
         | Some info \<Rightarrow> {old, info, decrementRateLimit info})"
proof (cases ev)
  case StartProcessing
  then show ?thesis using rl_startProcessing [of now q] by (auto simp: apply_event_def event_snapshot_def Let_def)
next
  case ResumeProcessing
  then show ?thesis using rl_resumeProcessing [of now q] by (auto simp: apply_event_def event_snapshot_def Let_def)
next
  case (RetryFailedItem x)
  then show ?thesis using rl_retryFailedItem [of now x q] by (auto simp: apply_event_def event_snapshot_def Let_def)
next
  case (Fire h)
  then show ?thesis using rl_fire [of now h q]
    by (auto simp: apply_event_def event_snapshot_def Let_def split: option.splits)
next
  case (Settle item outcome)
  then show ?thesis
    by (auto simp: apply_event_def event_snapshot_def Let_def rl_resume split: option.splits)
qed (simp_all add: apply_event_def event_snapshot_def Let_def onResult_def addToQueue_def
      addMultipleToQueue_def pauseProcessing_def clearQueue_def resetStatistics_def
      removeFromQueue_def destroy_def)

lemma consistent_apply_event:
  assumes "consistent (rateLimitInfo (state q))"
    and "case event_snapshot ev of None \<Rightarrow> True | Some info \<Rightarrow> consistent info"
  shows "consistent (rateLimitInfo (state (apply_event now ev q)))"
  using rl_apply_event [of now ev q] assms consistent_reset consistent_decrement
  by (auto simp: Let_def split: option.splits)

lemma consistent_apply_events:
  "consistent (rateLimitInfo (state q)) \<Longrightarrow> snapshots_consistent evs \<Longrightarrow>
   consistent (rateLimitInfo (state (apply_events evs q)))"
proof (induction evs arbitrary: q)
  case Nil
  then show ?case by simp
next
  case (Cons e evs)
  obtain now ev where e: "e = (now, ev)" by (cases e)
  from Cons.prems have "consistent (rateLimitInfo (state (apply_event now ev q)))"
    by (intro consistent_apply_event) (simp_all add: snapshots_consistent_def e)
  moreover from Cons.prems have "snapshots_consistent evs"
    by (simp add: snapshots_consistent_def)
  ultimately show ?case using Cons.IH by (simp add: e)
qed

lemma consistent_new_queue:
  "0 \<le> D \<Longrightarrow> stored_consistent st \<Longrightarrow> consistent (rateLimitInfo (state (new_queue D now st)))"
  by (auto simp: new_queue_def loadFromStorage_def stored_consistent_def stored_snapshot_def Let_def
      consistent_def initializeState_def split: stored.splits option.splits)

lemma rl_settle_failure:
  "failure outcome \<noteq> None \<Longrightarrow> snapshot_of outcome = Some info \<Longrightarrow>
   rateLimitInfo (state (apply_event now (Settle item outcome) q)) \<in> {rateLimitInfo (state q), info}"
  by (auto simp: apply_event_def rl_resume Let_def)

text \<open>The snapshots of route.ts satisfy the equation when its ceiling is not
  negative.\<close>

lemma route_snapshot_consistent:
  "0 \<le> limit \<Longrightarrow>
   consistent (rateLimitInfo_of_check limit (fst (checkRateLimit limit now generated ip requestId store)))"
  by (auto simp: consistent_def rateLimitInfo_of_check_def checkRateLimit_def Let_def
      split: option.splits)

text \<open>
  C4 (as amended). When the default ceiling is not negative and every snapshot
  taken over from the storage entry or from a response satisfies the equation
  with a ceiling that is not negative, then
  \<open>remaining = max 0 (maxRequestsPerMinute - requestsInLastMinute)\<close> holds in
  every state the queue reaches. An event that carries no snapshot changes the
  record only by the local window reset or by the local decrement; a failure
  body that carries a snapshot changes it only by replacing it with that
  snapshot.
\<close>

theorem rate_limit_equation_invariant:
  assumes "0 \<le> D" and "stored_consistent st" and "snapshots_consistent evs"
  shows "remaining (rateLimitInfo (state (apply_events evs (new_queue D t0 st)))) =
           max 0 (maxRequestsPerMinute (rateLimitInfo (state (apply_events evs (new_queue D t0 st))))
                  - requestsInLastMinute (rateLimitInfo (state (apply_events evs (new_queue D t0 st)))))
       \<and> (event_snapshot ev = None \<longrightarrow>
            rateLimitInfo (state (apply_event now ev q)) \<in>
              {rateLimitInfo (state q), resetRateLimit now (rateLimitInfo (state q)),
               decrementRateLimit (rateLimitInfo (state q))})
       \<and> (failure outcome \<noteq> None \<and> snapshot_of outcome = Some info \<longrightarrow>
            rateLimitInfo (state (apply_event now (Settle item outcome) q)) \<in>
              {rateLimitInfo (state q), info})"
proof -
  have inv: "consistent (rateLimitInfo (state (apply_events evs (new_queue D t0 st))))"
    using consistent_apply_events [OF consistent_new_queue [OF assms(1,2)] assms(3), of t0] .
  have local: "event_snapshot ev = None \<longrightarrow>
            rateLimitInfo (state (apply_event now ev q)) \<in>
              {rateLimitInfo (state q), resetRateLimit now (rateLimitInfo (state q)),
               decrementRateLimit (rateLimitInfo (state q))}"
    using rl_apply_event [of now ev q] by (auto simp: Let_def)
  have replaced: "failure outcome \<noteq> None \<and> snapshot_of outcome = Some info \<longrightarrow>
            rateLimitInfo (state (apply_event now (Settle item outcome) q)) \<in>
              {rateLimitInfo (state q), info}"
    using rl_settle_failure [of outcome info now item q] by blast
  from inv local replaced show ?thesis
    by (simp only: consistent_def)
qed

theorem rate_limit_equation_invariant_witness:
  "(0::int) \<le> 10 \<and> stored_consistent NoEntry \<and> snapshots_consistent (retry_run sound_snapshot)
   \<and> rateLimitInfo (state (apply_events (retry_run sound_snapshot) (new_queue 10 0 NoEntry)))
        = \<lparr>remaining = 8, resetTime = 60000, requestsInLastMinute = 2, maxRequestsPerMinute = 10\<rparr>
   \<and> remaining (rateLimitInfo (state (apply_events (retry_run sound_snapshot) (new_queue 10 0 NoEntry))))
        = max 0 (maxRequestsPerMinute (rateLimitInfo (state (apply_events (retry_run sound_snapshot) (new_queue 10 0 NoEntry))))
                 - requestsInLastMinute (rateLimitInfo (state (apply_events (retry_run sound_snapshot) (new_queue 10 0 NoEntry)))))"
proof -
  have a: "(0::int) \<le> 10" by simp
  have b: "stored_consistent NoEntry" by (simp add: stored_consistent_def stored_snapshot_def)
  have c: "snapshots_consistent (retry_run sound_snapshot)" by code_simp
  have d: "rateLimitInfo (state (apply_events (retry_run sound_snapshot) (new_queue 10 0 NoEntry)))
        = \<lparr>remaining = 8, resetTime = 60000, requestsInLastMinute = 2, maxRequestsPerMinute = 10\<rparr>"
    by code_simp
  from rate_limit_equation_invariant [OF a b c, of 0] a b c d show ?thesis by blast
qed

text \<open>The claim as stated fails: a failure body brings the snapshot
  \<open>{remaining: 5, requestsInLastMinute: 1, maxRequestsPerMinute: 10}\<close>, the item
  is dispatched again and succeeds with a body without snapshot, and the local
  decrement leaves 4 remaining with 2 requests of 10.\<close>

theorem rate_limit_equation_counterexample:
  "remaining (rateLimitInfo (state (apply_events (retry_run skewed_snapshot) (new_queue 10 0 NoEntry))))
     \<noteq> max 0 (maxRequestsPerMinute (rateLimitInfo (state (apply_events (retry_run skewed_snapshot) (new_queue 10 0 NoEntry))))
              - requestsInLastMinute (rateLimitInfo (state (apply_events (retry_run skewed_snapshot) (new_queue 10 0 NoEntry)))))"
proof -
  have "rateLimitInfo (state (apply_events (retry_run skewed_snapshot) (new_queue 10 0 NoEntry)))
        = \<lparr>remaining = 4, resetTime = 60000, requestsInLastMinute = 2, maxRequestsPerMinute = 10\<rparr>"
    by code_simp
  then show ?thesis by simp
qed

subsection \<open>The run of an item that always fails\<close>

lemma run_settle:
  "inflight q = item # rest \<Longrightarrow> timeouts q = [] \<Longrightarrow>
   run (Suc n) remote latency (now, q) =
     run n remote latency (max now (settleTime latency item),
        processNext_resume (max now (settleTime latency item)) item (remote item) q)"
  by (simp add: Let_def)

lemma run_fire:
  "inflight q = [] \<Longrightarrow> earliest (timeouts q) = Some t \<Longrightarrow>
   run (Suc n) remote latency (now, q) =
     run n remote latency (max now (fireAt t), fire (max now (fireAt t)) (handle t) q)"
  by (simp add: Let_def)

lemma run_done:
  "inflight q = [] \<Longrightarrow> timeouts q = [] \<Longrightarrow> run n remote latency (now, q) = (now, q)"
  by (cases n) simp_all

lemma processNext_go:
  assumes "isProcessing (state q)" "\<not> isPaused (state q)" "items (state q) = item # rest"
    and "\<not> (remaining (rateLimitInfo (state q)) \<le> 0 \<and> resetTime (rateLimitInfo (state q)) - now > 0)"
  shows "items (state (processNext now q)) = rest"
    and "inflight (processNext now q) = inflight q @ [item\<lparr>lastAttempt := Some now\<rparr>]"
    and "issued (processNext now q) = issued q @ [(now, item\<lparr>lastAttempt := Some now\<rparr>)]"
    and "timeouts (processNext now q) = timeouts q"
    and "isProcessing (state (processNext now q))" and "\<not> isPaused (state (processNext now q))"
    and "emitted (processNext now q) = emitted q"
    and "statistics (state (processNext now q)) = statistics (state q)"
    and "resultCallback (processNext now q) = resultCallback q"
  using assms by (auto simp: processNext_def Let_def)

lemma processNext_wait:
  assumes "isProcessing (state q)" "\<not> isPaused (state q)" "items (state q) \<noteq> []"
    and "remaining (rateLimitInfo (state q)) \<le> 0" "resetTime (rateLimitInfo (state q)) - now > 0"
  shows "processNext now q =
     q\<lparr>timeouts := timeouts q @ [\<lparr>handle = nextHandle q,
                                   fireAt = resetTime (rateLimitInfo (state q)),
                                   action = ProcessNext\<rparr>],
       nextHandle := Suc (nextHandle q), rateLimitTimer := Some (nextHandle q)\<rparr>"
  using assms by (simp add: processNext_def Let_def setTimeout_def)

lemma settle_requeue_phase:
  assumes q: "inflight q = [item]" "timeouts q = []"
    and att: "lastAttempt item = Some T" "now \<le> T + latency"
    and fail: "failure (remote item) = Some m" "isRetryableError m"
    and budget: "retryCount item + 1 < maxRetries item" "retryCount item \<le> 1"
  shows "\<exists>q' h t.
        (\<forall>n. run (Suc (Suc n)) remote latency (now, q) = run n remote latency (t, q'))
      \<and> t \<le> T + latency + 6000
      \<and> isProcessing (state q') = isProcessing (state q)
      \<and> isPaused (state q') = isPaused (state q)
      \<and> items (state q') = item\<lparr>retryCount := retryCount item + 1\<rparr> # items (state q)
      \<and> inflight q' = [] \<and> issued q' = issued q \<and> emitted q' = emitted q
      \<and> statistics (state q') = statistics (state q) \<and> resultCallback q' = resultCallback q
      \<and> timeouts q' = [\<lparr>handle = h, fireAt = T + latency + 6000, action = ProcessNext\<rparr>]"
proof -
  define S where "S = T + latency"
  define h where "h = nextHandle q"
  define item1 where "item1 = item\<lparr>retryCount := retryCount item + 1\<rparr>"
  define backoff where "backoff = RETRY_BACKOFF_BASE * 2 ^ retryCount item"
  define qa where "qa = processNext_resume S item (remote item) q"
  define qb where "qb = fire (S + backoff) h qa"
  have backoff: "0 < backoff" "backoff < 6000"
  proof -
    from budget(2) have "retryCount item = 0 \<or> retryCount item = 1" by auto
    then show "0 < backoff" "backoff < 6000"
      by (auto simp: backoff_def RETRY_BACKOFF_BASE_def)
  qed
  have settle: "max now (settleTime latency item) = S"
    using att by (simp add: settleTime_def S_def)
  have step1: "run (Suc (Suc n)) remote latency (now, q) = run (Suc n) remote latency (S, qa)" for n
    using run_settle [of q item "[]" "Suc n" remote latency now] q settle
    by (simp add: qa_def)
  have qa_timeouts: "timeouts qa =
      [\<lparr>handle = h, fireAt = S + backoff, action = Requeue item1\<rparr>,
       \<lparr>handle = Suc h, fireAt = S + 6000, action = ProcessNext\<rparr>]"
    using resume_retry_timeouts(1) [OF fail budget(1), of S q] q(2)
    by (simp add: qa_def h_def backoff_def item1_def PROCESSING_DELAY_def)
  have qa: "isProcessing (state qa) = isProcessing (state q)"
      "isPaused (state qa) = isPaused (state q)" "items (state qa) = items (state q)"
      "inflight qa = []" "issued qa = issued q" "emitted qa = emitted q"
      "statistics (state qa) = statistics (state q)" "resultCallback qa = resultCallback q"
    using q resume_retry_timeouts(2,3) [OF fail budget(1), of S q]
    by (simp_all add: qa_def resume_flags resume_proj)
  have step2: "run (Suc n) remote latency (S, qa) = run n remote latency (S + backoff, qb)" for n
    using run_fire [of qa "\<lparr>handle = h, fireAt = S + backoff, action = Requeue item1\<rparr>" n remote latency S]
      qa(4) qa_timeouts backoff
    by (simp add: qb_def)
  have qb_eq: "qb = saveToStorage ((clearTimeout h qa)\<lparr>state := (state (clearTimeout h qa))
             \<lparr>items := item1 # items (state (clearTimeout h qa))\<rparr>\<rparr>)"
    using fire_found [of h qa "\<lparr>handle = h, fireAt = S + backoff, action = Requeue item1\<rparr>" "S + backoff"]
      qa_timeouts by (simp add: qb_def)
  have qb: "isProcessing (state qb) = isProcessing (state q)"
      "isPaused (state qb) = isPaused (state q)" "items (state qb) = item1 # items (state q)"
      "inflight qb = []" "issued qb = issued q" "emitted qb = emitted q"
      "statistics (state qb) = statistics (state q)" "resultCallback qb = resultCallback q"
      "timeouts qb = [\<lparr>handle = Suc h, fireAt = S + 6000, action = ProcessNext\<rparr>]"
    using qa qa_timeouts by (simp_all add: qb_eq clearTimeout_def)
  from step1 step2 qb backoff show ?thesis
    by (intro exI [of _ qb] exI [of _ "Suc h"] exI [of _ "S + backoff"])
       (simp add: S_def item1_def)
qed

lemma tick_dispatch_phase:
  assumes q: "isProcessing (state q)" "\<not> isPaused (state q)" "items (state q) = item # rest"
      "inflight q = []" "timeouts q = [\<lparr>handle = h, fireAt = F, action = ProcessNext\<rparr>]"
  shows "\<exists>k T' q'. (k = 1 \<or> k = 2)
      \<and> (\<forall>n. run (k + n) remote latency (now, q) = run n remote latency (T', q'))
      \<and> isProcessing (state q') \<and> \<not> isPaused (state q') \<and> items (state q') = rest
      \<and> timeouts q' = []
      \<and> inflight q' = [item\<lparr>lastAttempt := Some T'\<rparr>]
      \<and> issued q' = issued q @ [(T', item\<lparr>lastAttempt := Some T'\<rparr>)]
      \<and> emitted q' = emitted q \<and> statistics (state q') = statistics (state q)
      \<and> resultCallback q' = resultCallback q"
proof -
  define N where "N = max now F"
  define q1 where "q1 = clearTimeout h q"
  define qa where "qa = fire N h q"
  have q1: "isProcessing (state q1)" "\<not> isPaused (state q1)" "items (state q1) = item # rest"
      "inflight q1 = []" "timeouts q1 = []" "issued q1 = issued q" "emitted q1 = emitted q"
      "statistics (state q1) = statistics (state q)" "resultCallback q1 = resultCallback q"
      "rateLimitInfo (state q1) = rateLimitInfo (state q)"
    using q by (simp_all add: q1_def clearTimeout_def)
  have qa_eq: "qa = processNext N q1"
    using fire_found [of h q "\<lparr>handle = h, fireAt = F, action = ProcessNext\<rparr>" N] q(5)
    by (simp add: qa_def q1_def)
  have step1: "run (Suc n) remote latency (now, q) = run n remote latency (N, qa)" for n
    using run_fire [of q "\<lparr>handle = h, fireAt = F, action = ProcessNext\<rparr>" n remote latency now] q(4,5)
    by (simp add: qa_def N_def)
  show ?thesis
  proof (cases "remaining (rateLimitInfo (state q1)) \<le> 0
                \<and> resetTime (rateLimitInfo (state q1)) - N > 0")
    case False
    from processNext_go [OF q1(1,2,3) False] q1 step1 show ?thesis
      by (intro exI [of _ 1] exI [of _ N] exI [of _ qa]) (simp add: qa_eq)
  next
    case True
    define R where "R = resetTime (rateLimitInfo (state q1))"
    define g where "g = nextHandle q1"
    have late: "N < R" using True by (simp add: R_def)
    have qa_wait: "qa = q1\<lparr>timeouts := [\<lparr>handle = g, fireAt = R, action = ProcessNext\<rparr>],
                            nextHandle := Suc g, rateLimitTimer := Some g\<rparr>"
      using processNext_wait [of q1 N] q1(1,2,3,5) True by (simp add: qa_eq R_def g_def)
    define q2 where "q2 = clearTimeout g qa"
    define qb where "qb = fire R g qa"
    have q2: "isProcessing (state q2)" "\<not> isPaused (state q2)" "items (state q2) = item # rest"
      "inflight q2 = []" "timeouts q2 = []" "issued q2 = issued q" "emitted q2 = emitted q"
      "statistics (state q2) = statistics (state q)" "resultCallback q2 = resultCallback q"
      "resetTime (rateLimitInfo (state q2)) = R"
      using q1 by (simp_all add: q2_def qa_wait clearTimeout_def R_def)
    have qb_eq: "qb = processNext R q2"
      using fire_found [of g qa "\<lparr>handle = g, fireAt = R, action = ProcessNext\<rparr>" R]
      by (simp add: qb_def q2_def qa_wait)
    have step2: "run (Suc n) remote latency (N, qa) = run n remote latency (R, qb)" for n
      using run_fire [of qa "\<lparr>handle = g, fireAt = R, action = ProcessNext\<rparr>" n remote latency N]
        q1(4) late
      by (simp add: qb_def qa_wait)
    have go: "\<not> (remaining (rateLimitInfo (state q2)) \<le> 0
                \<and> resetTime (rateLimitInfo (state q2)) - R > 0)"
      using q2(10) by simp
    have steps: "run (2 + n) remote latency (now, q) = run n remote latency (R, qb)" for n
      using step1 [of "Suc n"] step2 [of n] by simp
    from processNext_go [OF q2(1,2,3) go] q2 steps show ?thesis
      by (intro exI [of _ 2] exI [of _ R] exI [of _ qb]) (simp add: qb_eq)
  qed
qed

lemma terminal_settle:
  assumes q: "inflight q = [item]" "timeouts q = []"
    and att: "lastAttempt item = Some T" "now \<le> T + latency"
    and fail: "failure (remote item) = Some m"
    and spent: "\<not> (isRetryableError m \<and> retryCount item + 1 < maxRetries item)"
  shows "\<exists>q'. (\<forall>n. run (Suc n) remote latency (now, q) = run n remote latency (T + latency, q'))
      \<and> items (state q') = items (state q) \<and> inflight q' = [] \<and> issued q' = issued q
      \<and> map action (timeouts q') = [ProcessNext]
      \<and> emitted q' =
          (if resultCallback q
           then emitted q @ [\<lparr>res_id = req_id (request item),
                              res_filename = filename (request item),
                              status = Error, res_data = None, res_error = Some m,
                              res_createdAt = createdAt (request item),
                              completedAt = T + latency\<rparr>]
           else emitted q)
      \<and> statistics (state q') =
          (statistics (state q))\<lparr>errorCount := errorCount (statistics (state q)) + 1,
                                totalProcessed := totalProcessed (statistics (state q)) + 1\<rparr>"
proof -
  define S where "S = T + latency"
  define qa where "qa = processNext_resume S item (remote item) q"
  have settle: "max now (settleTime latency item) = S"
    using att by (simp add: settleTime_def S_def)
  have step1: "run (Suc n) remote latency (now, q) = run n remote latency (S, qa)" for n
    using run_settle [of q item "[]" n remote latency now] q settle
    by (simp add: qa_def)
  have qa: "items (state qa) = items (state q)" "inflight qa = []" "issued qa = issued q"
    using q by (simp_all add: qa_def resume_proj)
  from step1 qa q(2) resume_terminal_stats [OF fail spent, of S q]
      resume_terminal_emitted [OF fail spent, of S q]
      resume_terminal_timeouts [OF fail spent, of S q]
  show ?thesis
    by (intro exI [of _ qa]) (simp add: S_def qa_def)
qed

text \<open>
  C2 (as amended). A running queue has one call in flight, for an item with
  retry count 0 and \<open>maxRetries = MAX_RETRIES = 3\<close>, and no timeout pending; the
  remote call of its request always fails with a retryable error. Left to
  itself, the queue dispatches the item exactly twice more, with retry counts 1
  and 2: three dispatches in all, the first attempt and \<open>MAX_RETRIES - 1\<close>
  retries. The third failure terminates the item: a result with status error
  is emitted to the subscribed callback, \<open>errorCount\<close> and \<open>totalProcessed\<close> grow by
  one, and the item is neither pending, nor in flight, nor waiting on a
  timeout. At most nine events of the run lead there, whatever the latency of
  the remote side, the snapshots in the failure bodies and the other pending
  items are.
\<close>

theorem always_failing_item_attempts:
  assumes flight: "isProcessing (state q)" "\<not> isPaused (state q)"
      "inflight q = [item]" "timeouts q = []"
    and item: "retryCount item = 0" "maxRetries item = MAX_RETRIES"
      "lastAttempt item = Some T" "now \<le> T + latency" "0 \<le> latency"
    and fails: "\<forall>i. request i = request item \<longrightarrow> failure (remote i) = Some m"
      "isRetryableError m"
  shows "\<exists>k t q' T1 T2 T3. k \<le> 9 \<and> run k remote latency (now, q) = (t, q')
      \<and> issued q' = issued q @ [(T1, item\<lparr>retryCount := 1, lastAttempt := Some T1\<rparr>),
                                 (T2, item\<lparr>retryCount := 2, lastAttempt := Some T2\<rparr>)]
      \<and> emitted q' =
          (if resultCallback q
           then emitted q @ [\<lparr>res_id = req_id (request item),
                              res_filename = filename (request item),
                              status = Error, res_data = None, res_error = Some m,
                              res_createdAt = createdAt (request item), completedAt = T3\<rparr>]
           else emitted q)
      \<and> statistics (state q') =
          (statistics (state q))\<lparr>errorCount := errorCount (statistics (state q)) + 1,
                                totalProcessed := totalProcessed (statistics (state q)) + 1\<rparr>
      \<and> items (state q') = items (state q) \<and> inflight q' = []
      \<and> map action (timeouts q') = [ProcessNext]"
proof -
  define item1 where "item1 = item\<lparr>retryCount := Suc 0\<rparr>"
  have f: "failure (remote i) = Some m" if "request i = request item" for i
    using fails(1) that by simp
  \<comment> \<open>first failure: the item is put back\<close>
  obtain qa h1 t1 where a1:
      "\<And>n. run (Suc (Suc n)) remote latency (now, q) = run n remote latency (t1, qa)"
      "isProcessing (state qa)" "\<not> isPaused (state qa)"
      "items (state qa) = item1 # items (state q)"
      "inflight qa = []" "issued qa = issued q" "emitted qa = emitted q"
      "statistics (state qa) = statistics (state q)" "resultCallback qa = resultCallback q"
      "timeouts qa = [\<lparr>handle = h1, fireAt = T + latency + 6000, action = ProcessNext\<rparr>]"
    using settle_requeue_phase [where q = q and item = item and T = T and now = now
        and latency = latency and remote = remote and m = m]
      flight item f [of item] fails(2)
    by (auto simp: MAX_RETRIES_def item1_def simp del: run.simps)
  \<comment> \<open>second dispatch\<close>
  obtain k1 T1 qb where b1: "k1 = 1 \<or> k1 = 2"
      "\<And>n. run (k1 + n) remote latency (t1, qa) = run n remote latency (T1, qb)"
      "isProcessing (state qb)" "\<not> isPaused (state qb)" "items (state qb) = items (state q)"
      "timeouts qb = []" "inflight qb = [item1\<lparr>lastAttempt := Some T1\<rparr>]"
      "issued qb = issued q @ [(T1, item1\<lparr>lastAttempt := Some T1\<rparr>)]"
      "emitted qb = emitted q" "statistics (state qb) = statistics (state q)"
      "resultCallback qb = resultCallback q"
    using tick_dispatch_phase [OF a1(2,3,4,5,10), of remote latency t1] a1(6-9)
    by (auto simp del: run.simps)
  define item2 where "item2 = item\<lparr>retryCount := Suc (Suc 0), lastAttempt := Some T1\<rparr>"
  \<comment> \<open>second failure: the item is put back\<close>
  obtain qc h2 t2 where a2:
      "\<And>n. run (Suc (Suc n)) remote latency (T1, qb) = run n remote latency (t2, qc)"
      "isProcessing (state qc)" "\<not> isPaused (state qc)"
      "items (state qc) = item2 # items (state q)"
      "inflight qc = []" "issued qc = issued qb" "emitted qc = emitted q"
      "statistics (state qc) = statistics (state q)" "resultCallback qc = resultCallback q"
      "timeouts qc = [\<lparr>handle = h2, fireAt = T1 + latency + 6000, action = ProcessNext\<rparr>]"
    using settle_requeue_phase [where q = qb and item = "item1\<lparr>lastAttempt := Some T1\<rparr>"
        and T = T1 and now = T1 and latency = latency and remote = remote and m = m]
      b1(3-11) item f [of "item1\<lparr>lastAttempt := Some T1\<rparr>"] fails(2)
    by (auto simp: MAX_RETRIES_def item1_def item2_def simp del: run.simps)
  \<comment> \<open>third dispatch\<close>
  obtain k2 T2 qd where b2: "k2 = 1 \<or> k2 = 2"
      "\<And>n. run (k2 + n) remote latency (t2, qc) = run n remote latency (T2, qd)"
      "items (state qd) = items (state q)"
      "timeouts qd = []" "inflight qd = [item2\<lparr>lastAttempt := Some T2\<rparr>]"
      "issued qd = issued qb @ [(T2, item2\<lparr>lastAttempt := Some T2\<rparr>)]"
      "emitted qd = emitted q" "statistics (state qd) = statistics (state q)"
      "resultCallback qd = resultCallback q"
    using tick_dispatch_phase [OF a2(2,3,4,5,10), of remote latency t2] a2(6-9)
    by (auto simp del: run.simps)
  \<comment> \<open>third failure: terminal\<close>
  obtain qe where c: "\<And>n. run (Suc n) remote latency (T2, qd) = run n remote latency (T2 + latency, qe)"
      "items (state qe) = items (state q)" "inflight qe = []" "issued qe = issued qd"
      "map action (timeouts qe) = [ProcessNext]"
      "emitted qe =
          (if resultCallback q
           then emitted q @ [\<lparr>res_id = req_id (request item),
                              res_filename = filename (request item),
                              status = Error, res_data = None, res_error = Some m,
                              res_createdAt = createdAt (request item),
                              completedAt = T2 + latency\<rparr>]
           else emitted q)"
      "statistics (state qe) =
          (statistics (state q))\<lparr>errorCount := errorCount (statistics (state q)) + 1,
                                totalProcessed := totalProcessed (statistics (state q)) + 1\<rparr>"
    using terminal_settle [where q = qd and item = "item2\<lparr>lastAttempt := Some T2\<rparr>"
        and T = T2 and now = T2 and latency = latency and remote = remote and m = m]
      b2(3-9) item f [of "item2\<lparr>lastAttempt := Some T2\<rparr>"]
    by (auto simp: MAX_RETRIES_def item2_def simp del: run.simps)
  define k where "k = Suc (Suc (k1 + Suc (Suc (k2 + Suc 0))))"
  have "run k remote latency (now, q) = (T2 + latency, qe)"
    unfolding k_def a1(1) b1(2) a2(1) b2(2) c(1) by simp
  moreover have "k \<le> 9" using b1(1) b2(1) by (auto simp: k_def)
  ultimately show ?thesis
    using b1(8) b2(6) c(2-7)
    by (intro exI [of _ k] exI [of _ "T2 + latency"] exI [of _ qe] exI [of _ T1]
          exI [of _ T2] exI [of _ "T2 + latency"])
       (simp add: item1_def item2_def numeral_2_eq_2)
qed

theorem always_failing_item_attempts_witness:
  "isRetryableError ''Network request failed''
   \<and> failure network_down = Some ''Network request failed''
   \<and> (\<exists>k t q'. k \<le> 9 \<and> run k (\<lambda>_. network_down) 0 (0, started_a) = (t, q')
         \<and> map (retryCount \<circ> snd) (issued q') = [0, 1, 2]
         \<and> map status (emitted q') = [Error]
         \<and> errorCount (statistics (state q')) = 1)"
proof -
  have a: "isRetryableError ''Network request failed''" by code_simp
  have b: "failure network_down = Some ''Network request failed''" by code_simp
  have c: "\<forall>i. request i = request item_a \<longrightarrow>
             failure ((\<lambda>_. network_down) i) = Some ''Network request failed''"
    using b by simp
  have s: "isProcessing (state started_a)" "\<not> isPaused (state started_a)"
      "inflight started_a = [item_a]" "timeouts started_a = []"
      "issued started_a = [(0, item_a)]" "emitted started_a = []" "resultCallback started_a"
      "errorCount (statistics (state started_a)) = 0"
    by code_simp+
  have i: "retryCount item_a = 0" "maxRetries item_a = MAX_RETRIES" "lastAttempt item_a = Some 0"
    by (simp_all add: item_a_def MAX_RETRIES_def)
  from always_failing_item_attempts [OF s(1-4) i _ _ c a, of 0 0]
  obtain k t q' T1 T2 T3 where "k \<le> 9" "run k (\<lambda>_. network_down) 0 (0, started_a) = (t, q')"
      "issued q' = issued started_a @ [(T1, item_a\<lparr>retryCount := 1, lastAttempt := Some T1\<rparr>),
                                 (T2, item_a\<lparr>retryCount := 2, lastAttempt := Some T2\<rparr>)]"
      "emitted q' = [\<lparr>res_id = req_id (request item_a),
                              res_filename = filename (request item_a),
                              status = Error, res_data = None, res_error = Some ''Network request failed'',
                              res_createdAt = createdAt (request item_a), completedAt = T3\<rparr>]"
      "errorCount (statistics (state q')) = 1"
    using s(6,7,8) by (auto simp del: run.simps)
  then have r: "k \<le> 9 \<and> run k (\<lambda>_. network_down) 0 (0, started_a) = (t, q')
         \<and> map (retryCount \<circ> snd) (issued q') = [0, 1, 2]
         \<and> map status (emitted q') = [Error]
         \<and> errorCount (statistics (state q')) = 1"
    using s(5) i(1) by simp
  have "\<exists>k t q'. k \<le> 9 \<and> run k (\<lambda>_. network_down) 0 (0, started_a) = (t, q')
         \<and> map (retryCount \<circ> snd) (issued q') = [0, 1, 2]
         \<and> map status (emitted q') = [Error]
         \<and> errorCount (statistics (state q')) = 1"
  proof (intro exI)
    show "k \<le> 9 \<and> run k (\<lambda>_. network_down) 0 (0, started_a) = (t, q')
         \<and> map (retryCount \<circ> snd) (issued q') = [0, 1, 2]
         \<and> map status (emitted q') = [Error]
         \<and> errorCount (statistics (state q')) = 1"
      by (rule r)
  qed
  with a b show ?thesis by (intro conjI)
qed

text \<open>The claim as stated fails: the item is retried twice, not \<open>MAX_RETRIES\<close>
  times.\<close>

theorem always_failing_item_counterexample:
  "retries_of ''a'' (snd (run 8 (\<lambda>_. network_down) 0 (0, started_a))) \<noteq> MAX_RETRIES"
proof -
  have "retries_of ''a'' (snd (run 8 (\<lambda>_. network_down) 0 (0, started_a))) = 2"
    by code_simp
  then show ?thesis by (simp add: MAX_RETRIES_def)
qed

end
